theory Spec2Isabelle
  imports Complex_Main
begin

section \<open>JavaScript values\<close>

text \<open>
  The repository is TypeScript. Its session functions (\<^verbatim>\<open>src/lib/auth.ts\<close>), its request
  middleware and its two authentication routes receive values that the type annotations
  do not constrain at run time: a session comes out of \<^verbatim>\<open>JSON.parse\<close>. The embedding
  therefore works on JavaScript values as they are at run time.

  A JavaScript string is a sequence of 16-bit code units. A code unit is a natural
  number here, and \<open>js\<close> embeds an ASCII literal of the source.
\<close>

type_synonym code_unit = nat

type_synonym jsstring = "code_unit list"

definition js :: "string \<Rightarrow> jsstring" where
  "js s = map of_char s"

text \<open>
  A number is an IEEE binary64 value: a rational (every finite binary64 value is one;
  the two zeros are not told apart, no operation below does), an infinity, or NaN.
\<close>

datatype jsnum = Finite rat | PosInfinity | NegInfinity | NaN

text \<open>
  The values \<^verbatim>\<open>JSON.parse\<close> can return, and \<^verbatim>\<open>undefined\<close>. An object is the list of its
  own properties in enumeration order; its keys are distinct.
\<close>

datatype jsval =
    Undefined
  | Null
  | Bool bool
  | Num jsnum
  | Str jsstring
  | Arr "jsval list"
  | Obj "(jsstring \<times> jsval) list"

text \<open>What the code throws, and what the platform throws into it.\<close>

datatype exn =
    SyntaxError
  | TypeError
  | RangeError
  | AuthenticationError string
  | ValidationError string
  | Error string

text \<open>\<^verbatim>\<open>!!v\<close>: ToBoolean.\<close>

fun truthy :: "jsval \<Rightarrow> bool" where
  "truthy Undefined = False"
| "truthy Null = False"
| "truthy (Bool b) = b"
| "truthy (Num n) = (n \<noteq> Finite 0 \<and> n \<noteq> NaN)"
| "truthy (Str s) = (s \<noteq> [])"
| "truthy (Arr xs) = True"
| "truthy (Obj kvs) = True"

text \<open>
  \<^verbatim>\<open>v.k\<close> and \<^verbatim>\<open>v[k]\<close> on a value that is neither \<^verbatim>\<open>null\<close> nor \<^verbatim>\<open>undefined\<close>, for the
  keys this code reads (\<^verbatim>\<open>expiresAt\<close>, \<^verbatim>\<open>user\<close>, the six required fields of a user,
  \<^verbatim>\<open>picture\<close> and \<^verbatim>\<open>access_token\<close>): none of them is a property of a built-in prototype,
  an array index or \<^verbatim>\<open>length\<close>, so the value is the own property of an object and
  \<^verbatim>\<open>undefined\<close> on everything else. \<open>property\<close> stands for the reads that come after a
  truthiness test of the value or after \<^verbatim>\<open>?.\<close> (every read of \<^verbatim>\<open>src/lib/auth.ts\<close> and of
  the middleware), where its result on \<^verbatim>\<open>null\<close> and \<^verbatim>\<open>undefined\<close> is never used or is the
  \<^verbatim>\<open>undefined\<close> of \<^verbatim>\<open>?.\<close>.
\<close>

fun property :: "jsval \<Rightarrow> jsstring \<Rightarrow> jsval" where
  "property (Obj kvs) k = (case map_of kvs k of Some v \<Rightarrow> v | None \<Rightarrow> Undefined)"
| "property _ k = Undefined"

text \<open>
  A read \<^verbatim>\<open>v.k\<close> with nothing before it that excludes \<^verbatim>\<open>null\<close> and \<^verbatim>\<open>undefined\<close>: there
  it throws a TypeError.
\<close>

definition GetV :: "jsval \<Rightarrow> jsstring \<Rightarrow> exn + jsval" where
  "GetV v k = (if v = Null \<or> v = Undefined then Inl TypeError else Inr (property v k))"

text \<open>\<^verbatim>\<open>typeof v === 'object'\<close>.\<close>

fun typeof_object :: "jsval \<Rightarrow> bool" where
  "typeof_object Null = True"
| "typeof_object (Arr xs) = True"
| "typeof_object (Obj kvs) = True"
| "typeof_object _ = False"

section \<open>The platform\<close>

text \<open>
  What the code takes from the JavaScript platform and the embedding does not compute is a
  parameter: the number a JSON number literal denotes and the text of a number (both are
  binary64 arithmetic), \<^verbatim>\<open>Date.parse\<close> (\<open>None\<close> is NaN; outside the ISO format the
  result is left to the implementation), and the conversion of an object or array to a
  primitive value, which runs methods of the object and may throw.
\<close>

record platform =
  Number_of_literal :: "jsstring \<Rightarrow> jsnum"
  Number_toString :: "rat \<Rightarrow> jsstring"
  Date_parse :: "jsstring \<Rightarrow> int option"
  ToPrimitive :: "jsval \<Rightarrow> exn + jsval"

section \<open>\<^verbatim>\<open>JSON.parse\<close>\<close>

text \<open>
  \<^verbatim>\<open>JSON.parse(text)\<close> with no reviver, by recursive descent over the JSON grammar: white
  space, the three literals, strings with every escape, numbers (scanned here, valued by
  the platform), arrays and objects. A parser returns the value and the rest of the text;
  \<open>None\<close> is a syntax error.

  An object is built with \<open>obj_put\<close>, one member after the other: a member whose key is
  already there replaces the value and keeps the place of the first. The properties of
  the finished object are enumerated as JavaScript does (\<open>own_property_order\<close>): the keys
  that are array indices first, in ascending order, then the other keys in the order of
  their creation. An array index is the canonical decimal text of an integer from 0 to
  4294967294.

  The tests on lengths in \<open>parse_elements\<close> and \<open>parse_members\<close> are there for the
  termination proof.
\<close>

definition is_ws :: "code_unit \<Rightarrow> bool" where
  "is_ws c = (c = 32 \<or> c = 9 \<or> c = 10 \<or> c = 13)"

definition skip_ws :: "jsstring \<Rightarrow> jsstring" where
  "skip_ws s = dropWhile is_ws s"

definition is_digit :: "code_unit \<Rightarrow> bool" where
  "is_digit c = (48 \<le> c \<and> c \<le> 57)"

definition hex_value :: "code_unit \<Rightarrow> nat option" where
  "hex_value c =
     (if 48 \<le> c \<and> c \<le> 57 then Some (c - 48)
      else if 97 \<le> c \<and> c \<le> 102 then Some (c - 87)
      else if 65 \<le> c \<and> c \<le> 70 then Some (c - 55)
      else None)"

definition unescape :: "code_unit \<Rightarrow> code_unit option" where
  "unescape e =
     (if e = 34 then Some 34
      else if e = 92 then Some 92
      else if e = 47 then Some 47
      else if e = 98 then Some 8
      else if e = 102 then Some 12
      else if e = 110 then Some 10
      else if e = 114 then Some 13
      else if e = 116 then Some 9
      else None)"

definition cons_fst :: "'a \<Rightarrow> ('a list \<times> 'b) option \<Rightarrow> ('a list \<times> 'b) option" where
  "cons_fst x r = (case r of None \<Rightarrow> None | Some (xs, rest) \<Rightarrow> Some (x # xs, rest))"

fun parse_chars :: "jsstring \<Rightarrow> (jsstring \<times> jsstring) option" where
  "parse_chars [] = None"
| "parse_chars (c # r) =
     (if c = 34 then Some ([], r)
      else if c = 92 then
        (case r of
           [] \<Rightarrow> None
         | e # r1 \<Rightarrow>
             if e = 117 then
               (case r1 of
                  h1 # h2 # h3 # h4 # r2 \<Rightarrow>
                    (case (hex_value h1, hex_value h2, hex_value h3, hex_value h4) of
                       (Some a, Some b, Some c', Some d) \<Rightarrow>
                         cons_fst (((a * 16 + b) * 16 + c') * 16 + d) (parse_chars r2)
                     | _ \<Rightarrow> None)
                | _ \<Rightarrow> None)
             else
               (case unescape e of
                  None \<Rightarrow> None
                | Some u \<Rightarrow> cons_fst u (parse_chars r1)))
      else if c < 32 then None
      else cons_fst c (parse_chars r))"

definition scan_digits :: "jsstring \<Rightarrow> (jsstring \<times> jsstring) option" where
  "scan_digits s =
     (if takeWhile is_digit s = [] then None
      else Some (takeWhile is_digit s, dropWhile is_digit s))"

definition scan_int :: "jsstring \<Rightarrow> (jsstring \<times> jsstring) option" where
  "scan_int s =
     (case s of
        [] \<Rightarrow> None
      | c # r \<Rightarrow> if c = 48 then Some ([c], r) else scan_digits s)"

definition scan_frac :: "jsstring \<Rightarrow> (jsstring \<times> jsstring) option" where
  "scan_frac s =
     (case s of
        [] \<Rightarrow> Some ([], s)
      | c # r \<Rightarrow> if c = 46 then cons_fst c (scan_digits r) else Some ([], s))"

definition scan_exp :: "jsstring \<Rightarrow> (jsstring \<times> jsstring) option" where
  "scan_exp s =
     (case s of
        [] \<Rightarrow> Some ([], s)
      | c # r \<Rightarrow>
          if c = 101 \<or> c = 69 then
            (case r of
               [] \<Rightarrow> None
             | g # r1 \<Rightarrow>
                 if g = 43 \<or> g = 45 then cons_fst c (cons_fst g (scan_digits r1))
                 else cons_fst c (scan_digits r))
          else Some ([], s))"

definition scan_number :: "jsstring \<Rightarrow> (jsstring \<times> jsstring) option" where
  "scan_number s =
     (let (sign, s0) = (case s of [] \<Rightarrow> ([], s) | c # r \<Rightarrow> if c = 45 then ([c], r) else ([], s)) in
      case scan_int s0 of
        None \<Rightarrow> None
      | Some (i, s1) \<Rightarrow>
          (case scan_frac s1 of
             None \<Rightarrow> None
           | Some (f, s2) \<Rightarrow>
               (case scan_exp s2 of
                  None \<Rightarrow> None
                | Some (e, s3) \<Rightarrow> Some (sign @ i @ f @ e, s3))))"

fun obj_put :: "(jsstring \<times> jsval) list \<Rightarrow> jsstring \<Rightarrow> jsval \<Rightarrow> (jsstring \<times> jsval) list" where
  "obj_put [] k v = [(k, v)]"
| "obj_put ((k', v') # kvs) k v =
     (if k' = k then (k, v) # kvs else (k', v') # obj_put kvs k v)"

definition digits_value :: "jsstring \<Rightarrow> nat" where
  "digits_value k = foldl (\<lambda>n c. 10 * n + (c - 48)) 0 k"

definition array_index :: "jsstring \<Rightarrow> nat option" where
  "array_index k =
     (if k \<noteq> [] \<and> list_all is_digit k \<and> (hd k \<noteq> 48 \<or> k = [48]) \<and>
         digits_value k < 4294967295
      then Some (digits_value k) else None)"

definition own_property_order :: "(jsstring \<times> jsval) list \<Rightarrow> (jsstring \<times> jsval) list" where
  "own_property_order kvs =
     sort_key (\<lambda>(k, v). case array_index k of Some i \<Rightarrow> i | None \<Rightarrow> 0)
       (filter (\<lambda>(k, v). array_index k \<noteq> None) kvs) @
     filter (\<lambda>(k, v). array_index k = None) kvs"

definition obj_of_members :: "(jsstring \<times> jsval) list \<Rightarrow> jsval" where
  "obj_of_members ms = Obj (own_property_order (foldl (\<lambda>acc (k, v). obj_put acc k v) [] ms))"

lemma length_skip_ws: "length (skip_ws s) \<le> length s"
  by (simp add: skip_ws_def length_dropWhile_le)

lemma skip_ws_Cons_length: "skip_ws s = c # r \<Longrightarrow> length r < length s"
  using length_skip_ws [of s] by simp

function parse_value :: "platform \<Rightarrow> jsstring \<Rightarrow> (jsval \<times> jsstring) option"
  and parse_elements :: "platform \<Rightarrow> jsstring \<Rightarrow> (jsval list \<times> jsstring) option"
  and parse_members :: "platform \<Rightarrow> jsstring \<Rightarrow> ((jsstring \<times> jsval) list \<times> jsstring) option"
where
  "parse_value P s =
     (case skip_ws s of
        [] \<Rightarrow> None
      | c # r \<Rightarrow>
          if c = 91 then
            (case skip_ws r of
               [] \<Rightarrow> None
             | c1 # r1 \<Rightarrow>
                 if c1 = 93 then Some (Arr [], r1)
                 else (case parse_elements P r of
                         None \<Rightarrow> None
                       | Some (vs, r2) \<Rightarrow> Some (Arr vs, r2)))
          else if c = 123 then
            (case skip_ws r of
               [] \<Rightarrow> None
             | c1 # r1 \<Rightarrow>
                 if c1 = 125 then Some (Obj [], r1)
                 else (case parse_members P r of
                         None \<Rightarrow> None
                       | Some (ms, r2) \<Rightarrow> Some (obj_of_members ms, r2)))
          else if c = 34 then
            (case parse_chars r of
               None \<Rightarrow> None
             | Some (str, r1) \<Rightarrow> Some (Str str, r1))
          else if take 4 (c # r) = js ''true'' then Some (Bool True, drop 4 (c # r))
          else if take 5 (c # r) = js ''false'' then Some (Bool False, drop 5 (c # r))
          else if take 4 (c # r) = js ''null'' then Some (Null, drop 4 (c # r))
          else
            (case scan_number (c # r) of
               None \<Rightarrow> None
             | Some (lit, r1) \<Rightarrow> Some (Num (Number_of_literal P lit), r1)))"
| "parse_elements P s =
     (case parse_value P s of
        None \<Rightarrow> None
      | Some (v, r) \<Rightarrow>
          if length r < length s then
            (case skip_ws r of
               [] \<Rightarrow> None
             | c # r1 \<Rightarrow>
                 if c = 44 then
                   (case parse_elements P r1 of
                      None \<Rightarrow> None
                    | Some (vs, r2) \<Rightarrow> Some (v # vs, r2))
                 else if c = 93 then Some ([v], r1)
                 else None)
          else None)"
| "parse_members P s =
     (case skip_ws s of
        [] \<Rightarrow> None
      | q # r \<Rightarrow>
          if q = 34 then
            (case parse_chars r of
               None \<Rightarrow> None
             | Some (k, r1) \<Rightarrow>
                 (case skip_ws r1 of
                    [] \<Rightarrow> None
                  | c # r2 \<Rightarrow>
                      if c = 58 \<and> length r2 < length s then
                        (case parse_value P r2 of
                           None \<Rightarrow> None
                         | Some (v, r3) \<Rightarrow>
                             if length r3 < length r2 then
                               (case skip_ws r3 of
                                  [] \<Rightarrow> None
                                | c3 # r4 \<Rightarrow>
                                    if c3 = 44 then
                                      (case parse_members P r4 of
                                         None \<Rightarrow> None
                                       | Some (ms, r5) \<Rightarrow> Some ((k, v) # ms, r5))
                                    else if c3 = 125 then Some ([(k, v)], r4)
                                    else None)
                             else None)
                      else None))
          else None)"
  by pat_completeness auto
termination
  apply (relation "measure (\<lambda>x. case x of
            Inl (P, s) \<Rightarrow> 2 * length s
          | Inr (Inl (P, s)) \<Rightarrow> 2 * length s + 1
          | Inr (Inr (P, s)) \<Rightarrow> 2 * length s + 1)")
       apply (auto dest!: skip_ws_Cons_length)
  done

definition JSON_parse :: "platform \<Rightarrow> jsstring \<Rightarrow> exn + jsval" where
  "JSON_parse P text =
     (case parse_value P text of
        None \<Rightarrow> Inl SyntaxError
      | Some (v, r) \<Rightarrow> if skip_ws r = [] then Inr v else Inl SyntaxError)"

section \<open>\<^verbatim>\<open>JSON.stringify\<close>\<close>

text \<open>
  \<^verbatim>\<open>JSON.stringify(v)\<close> with no replacer and no indentation, on the values above (none has
  a \<^verbatim>\<open>toJSON\<close> method). \<^verbatim>\<open>undefined\<close> has no text (\<open>None\<close>): in an array it is written
  \<^verbatim>\<open>null\<close>, in an object its property is left out. A number that is not finite is written
  \<^verbatim>\<open>null\<close>. A string is quoted by \<open>QuoteJSONString\<close>: the short escapes, escapes of four
  hexadecimal digits for the other control characters and for a surrogate without its
  partner, every other code unit as it is.
\<close>

definition hex_digit :: "nat \<Rightarrow> code_unit" where
  "hex_digit d = (if d < 10 then 48 + d else 87 + d)"

definition unicode_escape :: "code_unit \<Rightarrow> jsstring" where
  "unicode_escape c =
     [92, 117, hex_digit (c div 4096 mod 16), hex_digit (c div 256 mod 16),
      hex_digit (c div 16 mod 16), hex_digit (c mod 16)]"

definition is_lead :: "code_unit \<Rightarrow> bool" where
  "is_lead c = (55296 \<le> c \<and> c \<le> 56319)"

definition is_trail :: "code_unit \<Rightarrow> bool" where
  "is_trail c = (56320 \<le> c \<and> c \<le> 57343)"

fun quote_chars :: "jsstring \<Rightarrow> jsstring" where
  "quote_chars [] = []"
| "quote_chars (c # r) =
     (if c = 8 then [92, 98] @ quote_chars r
      else if c = 9 then [92, 116] @ quote_chars r
      else if c = 10 then [92, 110] @ quote_chars r
      else if c = 12 then [92, 102] @ quote_chars r
      else if c = 13 then [92, 114] @ quote_chars r
      else if c = 34 then [92, 34] @ quote_chars r
      else if c = 92 then [92, 92] @ quote_chars r
      else if c < 32 then unicode_escape c @ quote_chars r
      else if is_lead c then
        (case r of
           [] \<Rightarrow> unicode_escape c
         | d # r1 \<Rightarrow>
             if is_trail d then c # d # quote_chars r1
             else unicode_escape c @ quote_chars r)
      else if is_trail c then unicode_escape c @ quote_chars r
      else c # quote_chars r)"

definition QuoteJSONString :: "jsstring \<Rightarrow> jsstring" where
  "QuoteJSONString s = [34] @ quote_chars s @ [34]"

fun join :: "jsstring \<Rightarrow> jsstring list \<Rightarrow> jsstring" where
  "join sep [] = []"
| "join sep [x] = x"
| "join sep (x # y # ys) = x @ sep @ join sep (y # ys)"

fun JSON_stringify :: "platform \<Rightarrow> jsval \<Rightarrow> jsstring option" where
  "JSON_stringify P Undefined = None"
| "JSON_stringify P Null = Some (js ''null'')"
| "JSON_stringify P (Bool b) = Some (if b then js ''true'' else js ''false'')"
| "JSON_stringify P (Num n) =
     Some (case n of Finite q \<Rightarrow> Number_toString P q | _ \<Rightarrow> js ''null'')"
| "JSON_stringify P (Str s) = Some (QuoteJSONString s)"
| "JSON_stringify P (Arr xs) =
     Some (js ''['' @
           join (js '','')
             (map (\<lambda>x. case JSON_stringify P x of None \<Rightarrow> js ''null'' | Some t \<Rightarrow> t) xs) @
           js '']'')"
| "JSON_stringify P (Obj kvs) =
     Some (js ''{'' @
           join (js '','')
             (concat (map (\<lambda>(k, v). case JSON_stringify P v of
                                        None \<Rightarrow> []
                                      | Some t \<Rightarrow> [QuoteJSONString k @ js '':'' @ t]) kvs)) @
           js ''}'')"

text \<open>What a template literal puts for the result of \<^verbatim>\<open>JSON.stringify\<close>.\<close>

definition template :: "jsstring option \<Rightarrow> jsstring" where
  "template t = (case t of None \<Rightarrow> js ''undefined'' | Some s \<Rightarrow> s)"

text \<open>
  The values whose JSON text is the same on every platform and loses nothing: no
  \<^verbatim>\<open>undefined\<close> and no number anywhere inside, and every object with its keys distinct
  and listed in the order of enumeration, as the objects of JavaScript are.
\<close>

fun plain :: "jsval \<Rightarrow> bool" where
  "plain Undefined = False"
| "plain Null = True"
| "plain (Bool b) = True"
| "plain (Num n) = False"
| "plain (Str s) = True"
| "plain (Arr xs) = list_all plain xs"
| "plain (Obj kvs) =
     (distinct (map fst kvs) \<and> own_property_order kvs = kvs \<and> list_all (\<lambda>(k, v). plain v) kvs)"

text \<open>
  The text of a value as an element of an array, and the text of a property as a member
  of an object.
\<close>

definition json_text :: "platform \<Rightarrow> jsval \<Rightarrow> jsstring" where
  "json_text P v = (case JSON_stringify P v of None \<Rightarrow> js ''null'' | Some t \<Rightarrow> t)"

definition member_text :: "platform \<Rightarrow> jsstring \<times> jsval \<Rightarrow> jsstring" where
  "member_text P m = QuoteJSONString (fst m) @ js '':'' @ json_text P (snd m)"

section \<open>Dates\<close>

text \<open>
  A time value is the number of milliseconds since the epoch, an integer of absolute
  value at most 8.64e15; an invalid date (time value NaN) is \<open>None\<close>.
\<close>

definition max_time :: int where
  "max_time = 8640000000000000"

text \<open>TimeClip on a number: out of range is NaN, a fraction is truncated towards zero.\<close>

fun TimeClip :: "jsnum \<Rightarrow> int option" where
  "TimeClip (Finite q) =
     (if \<bar>q\<bar> \<le> of_int max_time then Some (if 0 \<le> q then \<lfloor>q\<rfloor> else \<lceil>q\<rceil>) else None)"
| "TimeClip _ = None"

text \<open>
  The time value of \<^verbatim>\<open>new Date(p)\<close> for a primitive \<open>p\<close>: a string goes through
  \<^verbatim>\<open>Date.parse\<close>, everything else through ToNumber and TimeClip.
\<close>

fun time_of_primitive :: "platform \<Rightarrow> jsval \<Rightarrow> int option" where
  "time_of_primitive P (Str s) = Date_parse P s"
| "time_of_primitive P Undefined = None"
| "time_of_primitive P Null = Some 0"
| "time_of_primitive P (Bool b) = Some (if b then 1 else 0)"
| "time_of_primitive P (Num n) = TimeClip n"
| "time_of_primitive P _ = None"

text \<open>\<^verbatim>\<open>new Date(v).getTime()\<close>. An object or array is first converted by ToPrimitive,
  which may throw.\<close>

fun Date_getTime :: "platform \<Rightarrow> jsval \<Rightarrow> exn + int option" where
  "Date_getTime P (Arr xs) =
     (case ToPrimitive P (Arr xs) of Inl e \<Rightarrow> Inl e | Inr p \<Rightarrow> Inr (time_of_primitive P p))"
| "Date_getTime P (Obj kvs) =
     (case ToPrimitive P (Obj kvs) of Inl e \<Rightarrow> Inl e | Inr p \<Rightarrow> Inr (time_of_primitive P p))"
| "Date_getTime P v = Inr (time_of_primitive P v)"

text \<open>The civil date of a day number (days since 1970-01-01), proleptic Gregorian.\<close>

definition civil_from_days :: "int \<Rightarrow> int \<times> int \<times> int" where
  "civil_from_days days =
     (let z = days + 719468;
          era = z div 146097;
          doe = z mod 146097;
          yoe = (doe - doe div 1460 + doe div 36524 - doe div 146096) div 365;
          doy = doe - (365 * yoe + yoe div 4 - yoe div 100);
          mp = (5 * doy + 2) div 153;
          d = doy - (153 * mp + 2) div 5 + 1;
          m = (if mp < 10 then mp + 3 else mp - 9);
          y = yoe + era * 400 + (if m \<le> 2 then 1 else 0)
      in (y, m, d))"

text \<open>Decimal digits: of a fixed width, zero padded; and of a natural number as it is.\<close>

fun pad :: "nat \<Rightarrow> nat \<Rightarrow> jsstring" where
  "pad 0 n = []"
| "pad (Suc w) n = pad w (n div 10) @ [48 + n mod 10]"

function decimal :: "nat \<Rightarrow> jsstring" where
  "decimal n = (if n < 10 then [48 + n] else decimal (n div 10) @ [48 + n mod 10])"
  by pat_completeness auto
termination
proof (relation "measure (\<lambda>n. n)")
  show "wf (measure (\<lambda>n. n))" by simp
next
  fix n :: nat
  assume "\<not> n < 10"
  then have "n div 10 < n" by simp
  then show "(n div 10, n) \<in> measure (\<lambda>n. n)" by simp
qed

declare decimal.simps [simp del]

text \<open>\<^verbatim>\<open>new Date(t).toISOString()\<close>: RangeError on an invalid date.\<close>

definition Date_toISOString :: "int \<Rightarrow> exn + jsstring" where
  "Date_toISOString t =
     (if max_time < \<bar>t\<bar> then Inl RangeError
      else
        let (y, m, d) = civil_from_days (t div 86400000);
            ms = nat (t mod 86400000);
            year = (if 0 \<le> y \<and> y \<le> 9999 then pad 4 (nat y)
                    else (if y < 0 then js ''-'' else js ''+'') @ pad 6 (nat \<bar>y\<bar>))
        in Inr (year @ js ''-'' @ pad 2 (nat m) @ js ''-'' @ pad 2 (nat d) @ js ''T'' @
                pad 2 (ms div 3600000) @ js '':'' @ pad 2 (ms div 60000 mod 60) @ js '':'' @
                pad 2 (ms div 1000 mod 60) @ js ''.'' @ pad 3 (ms mod 1000) @ js ''Z''))"

section \<open>The session model: \<^verbatim>\<open>src/lib/auth.ts\<close>\<close>

text \<open>
  Every function that reads the clock takes \<open>now\<close>, the value of \<^verbatim>\<open>Date.now()\<close>, as an
  argument. A function that can throw returns \<open>exn + 'a\<close>; \<open>catch\<close> is a
  \<^verbatim>\<open>try { ... } catch { ... }\<close> around a body.
\<close>

definition catch :: "exn + 'a \<Rightarrow> (exn \<Rightarrow> exn + 'a) \<Rightarrow> exn + 'a" where
  "catch body handler = (case body of Inl e \<Rightarrow> handler e | Inr v \<Rightarrow> Inr v)"

definition createAuthSession :: "int \<Rightarrow> jsval \<Rightarrow> jsval \<Rightarrow> int \<Rightarrow> exn + jsval" where
  "createAuthSession now user accessToken expiresIn =
     (case Date_toISOString (now + expiresIn * 1000) of
        Inl e \<Rightarrow> Inl e
      | Inr expiresAt \<Rightarrow>
          Inr (Obj [(js ''user'', user),
                    (js ''accessToken'', accessToken),
                    (js ''expiresAt'', Str expiresAt)]))"

definition isSessionValid :: "platform \<Rightarrow> int \<Rightarrow> jsval \<Rightarrow> exn + bool" where
  "isSessionValid P now session =
     (if \<not> truthy session \<or> \<not> truthy (property session (js ''expiresAt'')) then Inr False
      else
        case Date_getTime P (property session (js ''expiresAt'')) of
          Inl e \<Rightarrow> Inl e
        | Inr expirationTime \<Rightarrow>
            Inr (case expirationTime of None \<Rightarrow> False | Some t \<Rightarrow> now < t))"

definition isSessionExpired :: "platform \<Rightarrow> int \<Rightarrow> jsval \<Rightarrow> exn + bool" where
  "isSessionExpired P now session =
     (case isSessionValid P now session of Inl e \<Rightarrow> Inl e | Inr b \<Rightarrow> Inr (\<not> b))"

text \<open>
  \<^verbatim>\<open>Math.max(0, x)\<close> and \<^verbatim>\<open>Math.floor(x / 1000)\<close> on a number that is an integer or NaN
  (\<open>None\<close>): NaN goes through both.
\<close>

definition Math_floor_div :: "int option \<Rightarrow> int \<Rightarrow> int option" where
  "Math_floor_div x k = (case x of None \<Rightarrow> None | Some a \<Rightarrow> Some (a div k))"

definition Math_max :: "int \<Rightarrow> int option \<Rightarrow> int option" where
  "Math_max a x = (case x of None \<Rightarrow> None | Some b \<Rightarrow> Some (max a b))"

definition getSessionTimeRemaining :: "platform \<Rightarrow> int \<Rightarrow> jsval \<Rightarrow> exn + int option" where
  "getSessionTimeRemaining P now session =
     (if \<not> truthy session \<or> \<not> truthy (property session (js ''expiresAt'')) then Inr (Some 0)
      else
        case Date_getTime P (property session (js ''expiresAt'')) of
          Inl e \<Rightarrow> Inl e
        | Inr expirationTime \<Rightarrow>
            let remainingMs = (case expirationTime of None \<Rightarrow> None | Some t \<Rightarrow> Some (t - now))
            in Inr (Math_max 0 (Math_floor_div remainingMs 1000)))"

definition requiredFields :: "jsstring list" where
  "requiredFields =
     [js ''id'', js ''google_id'', js ''email'', js ''name'', js ''created_at'', js ''updated_at'']"

definition validateUser :: "jsval \<Rightarrow> bool" where
  "validateUser user =
     (if \<not> truthy user \<or> \<not> typeof_object user then False
      else
        list_all
          (\<lambda>field. let v = property user field in v \<noteq> Null \<and> v \<noteq> Undefined \<and> v \<noteq> Str [])
          requiredFields)"

definition requireValidSession :: "platform \<Rightarrow> int \<Rightarrow> jsval \<Rightarrow> exn + jsval" where
  "requireValidSession P now session =
     (if \<not> truthy session then Inl (AuthenticationError ''No session provided'')
      else
        case isSessionValid P now session of
          Inl e \<Rightarrow> Inl e
        | Inr valid \<Rightarrow>
            if \<not> valid then Inl (AuthenticationError ''Session has expired'')
            else if \<not> validateUser (property session (js ''user'')) then
              Inl (AuthenticationError ''Invalid user data in session'')
            else Inr (property session (js ''user'')))"

definition getUserFromSession :: "platform \<Rightarrow> int \<Rightarrow> jsval \<Rightarrow> exn + jsval" where
  "getUserFromSession P now session =
     catch (requireValidSession P now session) (\<lambda>e. Inr Null)"

record cookie_options =
  httpOnly :: bool
  secure :: bool
  sameSite :: jsstring
  maxAge :: nat
  path :: jsstring

definition getSessionCookieOptions :: "bool \<Rightarrow> cookie_options" where
  "getSessionCookieOptions isProduction =
     \<lparr> httpOnly = True, secure = isProduction, sameSite = js ''lax'', maxAge = 3600,
       path = js ''/'' \<rparr>"

definition parseSessionFromCookie :: "platform \<Rightarrow> int \<Rightarrow> jsstring \<Rightarrow> exn + jsval" where
  "parseSessionFromCookie P now cookieValue =
     catch
       (case JSON_parse P cookieValue of
          Inl e \<Rightarrow> Inl e
        | Inr session \<Rightarrow>
            (case isSessionValid P now session of
               Inl e \<Rightarrow> Inl e
             | Inr valid \<Rightarrow> Inr (if valid then session else Null)))
       (\<lambda>e. Inr Null)"

definition serializeSessionToCookie :: "platform \<Rightarrow> jsval \<Rightarrow> bool \<Rightarrow> jsstring" where
  "serializeSessionToCookie P session isProduction =
     (let options = getSessionCookieOptions isProduction;
          sessionJson = JSON_stringify P session;
          cookieParts =
            [js ''session='' @ template sessionJson] @
            (if httpOnly options then [js ''HttpOnly''] else []) @
            (if secure options then [js ''Secure''] else []) @
            (if sameSite options \<noteq> [] then [js ''SameSite='' @ sameSite options] else []) @
            (if maxAge options \<noteq> 0 then [js ''Max-Age='' @ decimal (maxAge options)] else []) @
            (if path options \<noteq> [] then [js ''Path='' @ path options] else [])
      in join (js ''; '') cookieParts)"

definition createClearSessionCookie :: jsstring where
  "createClearSessionCookie =
     js ''session=; Path=/; Expires=Thu, 01 Jan 1970 00:00:00 GMT; HttpOnly; SameSite=Lax''"

section \<open>The request middleware: \<^verbatim>\<open>src/middleware/index.ts\<close>\<close>

record locals =
  locals_session :: jsval
  locals_user :: jsval
  locals_isAuthenticated :: bool

datatype effect =
    Console_error string
  | Cookies_delete jsstring jsstring

definition onRequest ::
  "platform \<Rightarrow> int \<Rightarrow> jsstring option \<Rightarrow> (locals \<Rightarrow> 'r) \<Rightarrow> locals \<times> effect list \<times> 'r" where
  "onRequest P now sessionCookie next =
     (let (session, effects) =
            (case sessionCookie of
               None \<Rightarrow> (Null, [])
             | Some cookie_value \<Rightarrow>
                 (case
                    (case JSON_parse P cookie_value of
                       Inl e \<Rightarrow> Inl e
                     | Inr parsedSession \<Rightarrow>
                         (case isSessionValid P now parsedSession of
                            Inl e \<Rightarrow> Inl e
                          | Inr valid \<Rightarrow>
                              if valid then Inr (parsedSession, [])
                              else Inr (Null, [Cookies_delete (js ''session'') (js ''/'')])))
                  of
                    Inr r \<Rightarrow> r
                  | Inl error \<Rightarrow>
                      (Null, [Console_error ''Error parsing session cookie:'',
                              Cookies_delete (js ''session'') (js ''/'')])));
          ctx = \<lparr> locals_session = session,
                  locals_user =
                    (if truthy (property session (js ''user'')) then property session (js ''user'')
                     else Null),
                  locals_isAuthenticated = truthy session \<rparr>
      in (ctx, effects, next ctx))"

section \<open>The logout route: \<^verbatim>\<open>src/pages/api/auth/logout.ts\<close>\<close>

record response =
  status :: nat
  headers :: "string \<rightharpoonup> jsstring"

definition headers_set :: "response \<Rightarrow> string \<Rightarrow> jsstring \<Rightarrow> response" where
  "headers_set r name v = r \<lparr> headers := (headers r)(name \<mapsto> v) \<rparr>"

definition logout_POST ::
  "('w \<Rightarrow> string \<Rightarrow> (exn + response) \<times> 'w) \<Rightarrow> 'w \<Rightarrow> (exn + response) \<times> effect list \<times> 'w" where
  "logout_POST redirect w =
     (case redirect w ''/?logout=success'' of
        (Inr resp, w1) \<Rightarrow>
          (Inr (headers_set resp ''Set-Cookie''
                  (js ''session=; Path=/; Expires=Thu, 01 Jan 1970 00:00:00 GMT; HttpOnly; SameSite=Lax'')),
           [], w1)
      | (Inl error, w1) \<Rightarrow>
          (case redirect w1 ''/?error=logout_failed'' of
             (Inr resp, w2) \<Rightarrow>
               (Inr (headers_set resp ''Set-Cookie''
                       (js ''session=; Path=/; Expires=Thu, 01 Jan 1970 00:00:00 GMT; HttpOnly; SameSite=Lax'')),
                [Console_error ''Logout error:''], w2)
           | (Inl error2, w2) \<Rightarrow> (Inl error2, [Console_error ''Logout error:''], w2)))"

definition logout_GET ::
  "('w \<Rightarrow> string \<Rightarrow> (exn + response) \<times> 'w) \<Rightarrow> 'w \<Rightarrow> (exn + response) \<times> 'w" where
  "logout_GET redirect w = redirect w ''/''"

section \<open>The login callback: \<^verbatim>\<open>src/pages/api/auth/google.ts\<close>\<close>

text \<open>
  The callback talks to Google and to the user store. Each of these calls happens at most
  once in a request, so it is a function from its arguments to its outcome: \<open>Inl\<close> when
  the call throws, its promise is rejected or the destructuring of its result throws, and
  otherwise what the code binds: \<open>oauth_getToken\<close> gives the \<^verbatim>\<open>tokens\<close> of line 64,
  \<open>oauth_userinfo\<close> (lines 65 to 69, from these tokens) the \<^verbatim>\<open>data\<close> of line 69, which may
  be any value, and a query of the store its pair of \<^verbatim>\<open>data\<close> and \<^verbatim>\<open>error\<close>.
\<close>

record services =
  oauth_getToken :: "jsstring \<Rightarrow> exn + jsval"
  oauth_userinfo :: "jsval \<Rightarrow> exn + jsval"
  db_find :: "jsval \<Rightarrow> exn + jsval \<times> jsval"
  db_update :: "jsval \<Rightarrow> jsval \<Rightarrow> exn + jsval \<times> jsval"
  db_insert :: "jsval \<Rightarrow> exn + jsval \<times> jsval"
  env_production :: bool

text \<open>\<^verbatim>\<open>a || b\<close>.\<close>

definition js_or :: "jsval \<Rightarrow> jsval \<Rightarrow> jsval" where
  "js_or a b = (if truthy a then a else b)"

text \<open>
  \<^verbatim>\<open>Object.entries(cookieOptions)\<close>, and the string a template literal makes of an
  entry's value.
\<close>

datatype option_value = OBool bool | OStr jsstring | ONum nat

definition Object_entries :: "cookie_options \<Rightarrow> (jsstring \<times> option_value) list" where
  "Object_entries options =
     [(js ''httpOnly'', OBool (httpOnly options)),
      (js ''secure'', OBool (secure options)),
      (js ''sameSite'', OStr (sameSite options)),
      (js ''maxAge'', ONum (maxAge options)),
      (js ''path'', OStr (path options))]"

fun ToString_option :: "option_value \<Rightarrow> jsstring" where
  "ToString_option (OBool b) = (if b then js ''true'' else js ''false'')"
| "ToString_option (OStr s) = s"
| "ToString_option (ONum n) = decimal n"

text \<open>
  Lines 75 to 126: find the user by Google id, then update or insert. Line 71 has read
  \<^verbatim>\<open>googleUser.id\<close> before, so \<^verbatim>\<open>googleUser\<close> is neither \<^verbatim>\<open>null\<close> nor \<^verbatim>\<open>undefined\<close> here.
\<close>

definition upsert_user :: "int \<Rightarrow> services \<Rightarrow> jsval \<Rightarrow> (exn + jsval) \<times> effect list" where
  "upsert_user now S googleUser =
     (case db_find S (property googleUser (js ''id'')) of
        Inl e \<Rightarrow> (Inl e, [])
      | Inr (existingUser, findError) \<Rightarrow>
          if truthy existingUser \<and> \<not> truthy findError then
            (case Date_toISOString now of
               Inl e \<Rightarrow> (Inl e, [])
             | Inr updated_at \<Rightarrow>
                 (case db_update S (property googleUser (js ''id''))
                         (Obj [(js ''email'', property googleUser (js ''email'')),
                               (js ''name'', property googleUser (js ''name'')),
                               (js ''avatar_url'', js_or (property googleUser (js ''picture'')) Null),
                               (js ''updated_at'', Str updated_at)]) of
                    Inl e \<Rightarrow> (Inl e, [])
                  | Inr (updatedUser, updateError) \<Rightarrow>
                      if truthy updateError \<or> \<not> truthy updatedUser then
                        (Inl (AuthenticationError ''Failed to update user information''),
                         [Console_error ''Error updating user:''])
                      else (Inr updatedUser, [])))
          else
            (case db_insert S
                    (Obj [(js ''google_id'', property googleUser (js ''id'')),
                          (js ''email'', property googleUser (js ''email'')),
                          (js ''name'', property googleUser (js ''name'')),
                          (js ''avatar_url'', js_or (property googleUser (js ''picture'')) Null)]) of
               Inl e \<Rightarrow> (Inl e, [])
             | Inr (newUser, createError) \<Rightarrow>
                 if truthy createError \<or> \<not> truthy newUser then
                   (Inl (AuthenticationError ''Failed to create user account''),
                    [Console_error ''Error creating user:''])
                 else (Inr newUser, [])))"

text \<open>
  Lines 48 to 150, the body of the \<^verbatim>\<open>try\<close>. \<open>code\<close> and \<open>error\<close> are the two query
  parameters of the request URL (\<open>None\<close> when missing). The clock is read twice: \<open>now_db\<close>
  for the \<^verbatim>\<open>updated_at\<close> of an update, \<open>now\<close> in \<^verbatim>\<open>createAuthSession\<close>. The reads
  \<^verbatim>\<open>googleUser.id\<close> (line 71) and \<^verbatim>\<open>tokens.access_token\<close> (line 131) are the first of their
  value and throw when it is \<^verbatim>\<open>null\<close> or \<^verbatim>\<open>undefined\<close>.
\<close>

definition google_POST_try ::
  "platform \<Rightarrow> int \<Rightarrow> int \<Rightarrow> services \<Rightarrow> ('w \<Rightarrow> string \<Rightarrow> (exn + response) \<times> 'w) \<Rightarrow>
   jsstring option \<Rightarrow> jsstring option \<Rightarrow> 'w \<Rightarrow> (exn + response) \<times> effect list \<times> 'w" where
  "google_POST_try P now_db now S redirect code error w =
     (if error \<noteq> None \<and> error \<noteq> Some [] then
        (case redirect w ''/?error=oauth_denied'' of
           (r, w1) \<Rightarrow> (r, [Console_error ''OAuth error:''], w1))
      else
        case code of
          None \<Rightarrow> (Inl (ValidationError ''Authorization code is required''), [], w)
        | Some c \<Rightarrow>
            if c = [] then (Inl (ValidationError ''Authorization code is required''), [], w)
            else
              (case oauth_getToken S c of
                 Inl e \<Rightarrow> (Inl e, [], w)
               | Inr tokens \<Rightarrow>
                   (case oauth_userinfo S tokens of
                      Inl e \<Rightarrow> (Inl e, [], w)
                    | Inr googleUser \<Rightarrow>
                        (case GetV googleUser (js ''id'') of
                           Inl e \<Rightarrow> (Inl e, [], w)
                         | Inr google_id \<Rightarrow>
                             if \<not> truthy google_id \<or>
                                \<not> truthy (property googleUser (js ''email'')) \<or>
                                \<not> truthy (property googleUser (js ''name''))
                             then
                               (Inl (AuthenticationError ''Incomplete user information from Google''),
                                [], w)
                             else
                               (case upsert_user now_db S googleUser of
                                  (Inl e, logged) \<Rightarrow> (Inl e, logged, w)
                                | (Inr user, logged) \<Rightarrow>
                                    (case GetV tokens (js ''access_token'') of
                                       Inl e \<Rightarrow> (Inl e, logged, w)
                                     | Inr access_token \<Rightarrow>
                                         (case createAuthSession now user
                                                 (js_or access_token (Str [])) 3600 of
                                            Inl e \<Rightarrow> (Inl e, logged, w)
                                          | Inr session \<Rightarrow>
                                              let cookieOptions =
                                                    getSessionCookieOptions (env_production S)
                                              in (case redirect w ''/?auth=success'' of
                                                    (Inl e, w1) \<Rightarrow> (Inl e, logged, w1)
                                                  | (Inr resp, w1) \<Rightarrow>
                                                      (Inr (headers_set resp ''Set-Cookie''
                                                              (js ''session='' @
                                                               template (JSON_stringify P session) @
                                                               js ''; '' @
                                                               join (js ''; '')
                                                                 (map (\<lambda>(key, v).
                                                                         key @ js ''='' @
                                                                         ToString_option v)
                                                                    (Object_entries cookieOptions)))),
                                                       logged, w1)))))))))"

text \<open>Lines 47 to 165: the handler, with its \<^verbatim>\<open>catch\<close>.\<close>

definition google_POST ::
  "platform \<Rightarrow> int \<Rightarrow> int \<Rightarrow> services \<Rightarrow> ('w \<Rightarrow> string \<Rightarrow> (exn + response) \<times> 'w) \<Rightarrow>
   jsstring option \<Rightarrow> jsstring option \<Rightarrow> 'w \<Rightarrow> (exn + response) \<times> effect list \<times> 'w" where
  "google_POST P now_db now S redirect code error w =
     (case google_POST_try P now_db now S redirect code error w of
        (Inr resp, logged, w1) \<Rightarrow> (Inr resp, logged, w1)
      | (Inl e, logged, w1) \<Rightarrow>
          (case redirect w1
                  (case e of
                     ValidationError m \<Rightarrow> ''/?error=invalid_request''
                   | AuthenticationError m \<Rightarrow> ''/?error=auth_failed''
                   | _ \<Rightarrow> ''/?error=server_error'') of
             (r, w2) \<Rightarrow> (r, logged @ [Console_error ''Authentication error:''], w2)))"

section \<open>Fixtures of the repository's tests\<close>

text \<open>
  \<^verbatim>\<open>src/test/api/auth/logout.test.ts\<close>: a redirect helper that throws on its first call and
  returns a response on every later one. Its state is the number of calls so far.
\<close>

definition mock_response :: response where
  "mock_response = \<lparr> status = 302, headers = Map.empty \<rparr>"

definition mock_redirect_failing_once :: "nat \<Rightarrow> string \<Rightarrow> (exn + response) \<times> nat" where
  "mock_redirect_failing_once calls url =
     (if calls = 0 then (Inl (Error ''Redirect failed''), Suc calls)
      else (Inr mock_response, Suc calls))"

definition mock_redirect :: "nat \<Rightarrow> string \<Rightarrow> (exn + response) \<times> nat" where
  "mock_redirect calls url = (Inr mock_response, Suc calls)"

text \<open>
  \<^verbatim>\<open>src/test/lib/auth.test.ts\<close>: the user of the tests, the frozen clock
  (2024-01-01T12:00:00Z) and the session \<^verbatim>\<open>createAuthSession(mockUser, 'token123')\<close> makes
  at that instant.
\<close>

definition mockUser :: jsval where
  "mockUser =
     Obj [(js ''id'', Str (js ''user-123'')),
          (js ''google_id'', Str (js ''123456789'')),
          (js ''email'', Str (js ''test@example.com'')),
          (js ''name'', Str (js ''Test User'')),
          (js ''avatar_url'', Str (js ''https://example.com/avatar.jpg'')),
          (js ''created_at'', Str (js ''2024-01-01T00:00:00Z'')),
          (js ''updated_at'', Str (js ''2024-01-01T00:00:00Z''))]"

definition test_now :: int where
  "test_now = 1704110400000"

definition test_session :: jsval where
  "test_session =
     Obj [(js ''user'', mockUser),
          (js ''accessToken'', Str (js ''token123'')),
          (js ''expiresAt'', Str (js ''2024-01-01T13:00:00.000Z''))]"

text \<open>The JSON text of the session of the tests: the value of its cookie.\<close>

definition test_cookie :: jsstring where
  \<open>test_cookie = js ''{"user":{"id":"user-123","google_id":"123456789","email":"test@example.com","name":"Test User","avatar_url":"https://example.com/avatar.jpg","created_at":"2024-01-01T00:00:00Z","updated_at":"2024-01-01T00:00:00Z"},"accessToken":"token123","expiresAt":"2024-01-01T13:00:00.000Z"}''\<close>

text \<open>
  A platform for the concrete examples. Of dates it knows the timestamps the examples
  use, each with the time value ECMAScript gives it, and takes every other string for no
  date. An object it converts to a primitive as ECMAScript converts an object that
  \<^verbatim>\<open>JSON.parse\<close> made: no property of such an object is a function, so with a property
  \<^verbatim>\<open>toString\<close> of its own the object has no method that returns a primitive and the
  conversion throws a TypeError, and without one the \<^verbatim>\<open>toString\<close> it inherits returns
  \<^verbatim>\<open>[object Object]\<close>. No example holds a number or converts an array.
\<close>

definition known_timestamps :: "(jsstring \<times> int) list" where
  "known_timestamps =
     [(js ''2024-01-01T13:00:00.000Z'', 1704114000000),
      (js ''2024-01-01T12:00:00.500Z'', 1704110400500),
      (js ''2024-01-01T11:00:00.000Z'', 1704106800000)]"

definition test_ToPrimitive :: "jsval \<Rightarrow> exn + jsval" where
  "test_ToPrimitive v =
     (case v of
        Obj kvs \<Rightarrow>
          if map_of kvs (js ''toString'') = None then Inr (Str (js ''[object Object]''))
          else Inl TypeError
      | _ \<Rightarrow> Inl TypeError)"

definition test_platform :: platform where
  "test_platform =
     \<lparr> Number_of_literal = (\<lambda>lit. NaN),
       Number_toString = (\<lambda>q. []),
       Date_parse = map_of known_timestamps,
       ToPrimitive = test_ToPrimitive \<rparr>"





definition expiring_session :: jsval where
  "expiring_session =
     Obj [(js ''user'', mockUser),
          (js ''accessToken'', Str (js ''token123'')),
          (js ''expiresAt'', Str (js ''2024-01-01T12:00:00.500Z''))]"

text \<open>A session whose \<^verbatim>\<open>expiresAt\<close> is a string that is no date.\<close>

definition undated_session :: jsval where
  "undated_session =
     Obj [(js ''user'', mockUser),
          (js ''accessToken'', Str (js ''token123'')),
          (js ''expiresAt'', Str (js ''not-a-date''))]"

text \<open>
  \<^verbatim>\<open>src/test/api/auth/google.test.ts\<close>: Google returns a token and a complete profile, the
  store finds no user and inserts one.
\<close>

definition mock_tokens :: jsval where
  "mock_tokens = Obj [(js ''access_token'', Str (js ''mock-access-token''))]"

definition mock_googleUser :: jsval where
  "mock_googleUser =
     Obj [(js ''id'', Str (js ''google-123'')),
          (js ''email'', Str (js ''test@example.com'')),
          (js ''name'', Str (js ''Test User'')),
          (js ''picture'', Str (js ''https://example.com/avatar.jpg''))]"

definition mock_newUser :: jsval where
  "mock_newUser =
     Obj [(js ''id'', Str (js ''1'')),
          (js ''google_id'', Str (js ''google-123'')),
          (js ''email'', Str (js ''test@example.com'')),
          (js ''name'', Str (js ''Test User'')),
          (js ''avatar_url'', Str (js ''https://example.com/avatar.jpg'')),
          (js ''created_at'', Str (js ''2024-01-01T00:00:00Z'')),
          (js ''updated_at'', Str (js ''2024-01-01T00:00:00Z''))]"

definition mock_services :: services where
  "mock_services =
     \<lparr> oauth_getToken = (\<lambda>code. Inr mock_tokens),
       oauth_userinfo = (\<lambda>tokens. Inr mock_googleUser),
       db_find = (\<lambda>google_id. Inr (Null, Obj [(js ''code'', Str (js ''PGRST116''))])),
       db_update = (\<lambda>google_id fields. Inr (Null, Null)),
       db_insert = (\<lambda>fields. Inr (mock_newUser, Null)),
       env_production = False \<rparr>"

text \<open>The session the callback makes of that user, at the frozen clock.\<close>

definition mock_login_session :: jsval where
  "mock_login_session =
     Obj [(js ''user'', mock_newUser),
          (js ''accessToken'', Str (js ''mock-access-token'')),
          (js ''expiresAt'', Str (js ''2024-01-01T13:00:00.000Z''))]"

text \<open>The \<^verbatim>\<open>Set-Cookie\<close> header of the callback for that session.\<close>

definition mock_login_cookie :: jsstring where
  \<open>mock_login_cookie = js ''session={"user":{"id":"1","google_id":"google-123","email":"test@example.com","name":"Test User","avatar_url":"https://example.com/avatar.jpg","created_at":"2024-01-01T00:00:00Z","updated_at":"2024-01-01T00:00:00Z"},"accessToken":"mock-access-token","expiresAt":"2024-01-01T13:00:00.000Z"}; httpOnly=true; secure=false; sameSite=lax; maxAge=3600; path=/''\<close>

section \<open>Predicates of the statements\<close>



text \<open>
  \<open>accepted P now raw v\<close>: \<open>raw\<close> parses as JSON to \<open>v\<close>, and \<open>v\<close> satisfies
  \<^verbatim>\<open>isSessionValid\<close> at \<open>now\<close>.
\<close>

definition accepted :: "platform \<Rightarrow> int \<Rightarrow> jsstring \<Rightarrow> jsval \<Rightarrow> bool" where
  "accepted P now raw v = (JSON_parse P raw = Inr v \<and> isSessionValid P now v = Inr True)"

text \<open>
  \<open>reads_back P v\<close>: the parser reads the text of \<open>v\<close>, whatever follows it, as \<open>v\<close>, and
  stops where the text ends.
\<close>

definition reads_back :: "platform \<Rightarrow> jsval \<Rightarrow> bool" where
  "reads_back P v = (\<forall>rest. parse_value P (json_text P v @ rest) = Some (v, rest))"

text \<open>The characters of an ASCII literal that \<open>QuoteJSONString\<close> leaves as they are.\<close>

definition safe_char :: "char \<Rightarrow> bool" where
  "safe_char c = (32 \<le> (of_char c :: nat) \<and> c \<noteq> CHR 0x22 \<and> c \<noteq> CHR 0x5C)"

section \<open>Strings\<close>

lemma js_append: "js (a @ b) = js a @ js b"
  by (simp add: js_def)

lemma js_Nil [simp]: "js [] = []"
  by (simp add: js_def)

lemma js_Cons: "js (c # s) = of_char c # js s"
  by (simp add: js_def)

lemma js_eq_iff [simp]: "js a = js b \<longleftrightarrow> a = b"
  by (simp add: js_def inj_map_eq_map [OF inj_of_char])

lemma js_eq_Nil [simp]: "js s = [] \<longleftrightarrow> s = []"
  by (simp add: js_def)

lemma Nil_eq_js [simp]: "[] = js s \<longleftrightarrow> s = []"
  by (simp add: js_def)

section \<open>The order of enumeration\<close>

lemma array_index_nondigit: "\<not> is_digit c \<Longrightarrow> array_index (c # k) = None"
  by (simp add: array_index_def)

lemma array_index_js: "\<not> is_digit (of_char c) \<Longrightarrow> array_index (js (c # s)) = None"
  by (simp add: js_Cons array_index_nondigit)

lemma own_property_order_no_index:
  "list_all (\<lambda>(k, v). array_index k = None) kvs \<Longrightarrow> own_property_order kvs = kvs"
proof -
  assume a: "list_all (\<lambda>(k, v). array_index k = None) kvs"
  then have "filter (\<lambda>(k, v). array_index k \<noteq> None) kvs = []"
    by (auto simp: list_all_iff filter_empty_conv)
  moreover from a have "filter (\<lambda>(k, v). array_index k = None) kvs = kvs"
    by (auto simp: list_all_iff filter_id_conv)
  ultimately show ?thesis
    by (simp add: own_property_order_def)
qed

lemmas object_order = own_property_order_no_index array_index_js is_digit_def

section \<open>\<^verbatim>\<open>JSON.parse\<close> reads back what \<^verbatim>\<open>JSON.stringify\<close> wrote\<close>

subsection \<open>Strings\<close>

lemma hex_value_hex_digit: "d < 16 \<Longrightarrow> hex_value (hex_digit d) = Some d"
  by (auto simp: hex_value_def hex_digit_def)

lemma hex4_value:
  "c < 65536 \<Longrightarrow>
   ((c div 4096 mod 16 * 16 + c div 256 mod 16) * 16 + c div 16 mod 16) * 16 + c mod 16 = (c::nat)"
proof -
  assume c: "c < 65536"
  define x where "x = c div 16"
  define y where "y = x div 16"
  define z where "z = y div 16"
  have y: "c div 256 = y"
    using div_mult2_eq [of c 16 16] by (simp add: x_def y_def)
  have z: "c div 4096 = z"
    using div_mult2_eq [of c 256 16] y by (simp add: z_def)
  from c have "z < 16"
    unfolding z [symmetric] by simp
  then have z16: "z mod 16 = z"
    by simp
  have "c = x * 16 + c mod 16"
    by (simp add: x_def)
  moreover have "x = y * 16 + x mod 16"
    by (simp add: y_def)
  moreover have "y = z * 16 + y mod 16"
    by (simp add: z_def)
  ultimately have "((z * 16 + y mod 16) * 16 + x mod 16) * 16 + c mod 16 = c"
    by simp
  then show ?thesis
    by (simp add: y z z16 x_def [symmetric])
qed

lemma parse_chars_hex4:
  assumes "hex_value h1 = Some a" "hex_value h2 = Some b" "hex_value h3 = Some c"
    "hex_value h4 = Some d"
  shows "parse_chars (92 # 117 # h1 # h2 # h3 # h4 # t) =
           cons_fst (((a * 16 + b) * 16 + c) * 16 + d) (parse_chars t)"
  using assms by simp

lemma parse_chars_unicode_escape:
  assumes "c < 65536"
  shows "parse_chars (unicode_escape c @ t) = cons_fst c (parse_chars t)"
proof -
  have "parse_chars (unicode_escape c @ t) =
        cons_fst (((c div 4096 mod 16 * 16 + c div 256 mod 16) * 16 + c div 16 mod 16) * 16 +
                  c mod 16) (parse_chars t)"
    unfolding unicode_escape_def append_Cons append_Nil
    by (rule parse_chars_hex4) (simp_all add: hex_value_hex_digit)
  with assms show ?thesis
    by (simp only: hex4_value)
qed

lemma cons_fst_Some [simp]: "cons_fst x (Some (xs, r)) = Some (x # xs, r)"
  by (simp add: cons_fst_def)

lemma parse_chars_literal:
  "c \<noteq> 34 \<Longrightarrow> c \<noteq> 92 \<Longrightarrow> \<not> c < 32 \<Longrightarrow> parse_chars (c # t) = cons_fst c (parse_chars t)"
  by simp

lemma parse_chars_escape:
  "unescape e = Some u \<Longrightarrow> e \<noteq> 117 \<Longrightarrow> parse_chars (92 # e # t) = cons_fst u (parse_chars t)"
  by simp

lemma surrogate_bounds:
  "is_lead c \<Longrightarrow> c < 65536 \<and> c \<noteq> 34 \<and> c \<noteq> 92 \<and> \<not> c < 32"
  "is_trail c \<Longrightarrow> c < 65536 \<and> c \<noteq> 34 \<and> c \<noteq> 92 \<and> \<not> c < 32"
  by (simp_all add: is_lead_def is_trail_def)

lemma quote_chars_short:
  "quote_chars (8 # r) = [92, 98] @ quote_chars r"
  "quote_chars (9 # r) = [92, 116] @ quote_chars r"
  "quote_chars (10 # r) = [92, 110] @ quote_chars r"
  "quote_chars (12 # r) = [92, 102] @ quote_chars r"
  "quote_chars (13 # r) = [92, 114] @ quote_chars r"
  "quote_chars (34 # r) = [92, 34] @ quote_chars r"
  "quote_chars (92 # r) = [92, 92] @ quote_chars r"
  by simp_all

lemma quote_chars_control:
  "c < 32 \<Longrightarrow> c \<noteq> 8 \<Longrightarrow> c \<noteq> 9 \<Longrightarrow> c \<noteq> 10 \<Longrightarrow> c \<noteq> 12 \<Longrightarrow> c \<noteq> 13 \<Longrightarrow>
   quote_chars (c # r) = unicode_escape c @ quote_chars r"
  by simp

lemma quote_chars_pair:
  "is_lead c \<Longrightarrow> is_trail d \<Longrightarrow> quote_chars (c # d # r) = c # d # quote_chars r"
  by (simp add: surrogate_bounds) (simp add: is_lead_def)

lemma quote_chars_lone_lead:
  "is_lead c \<Longrightarrow> r = [] \<or> \<not> is_trail (hd r) \<Longrightarrow>
   quote_chars (c # r) = unicode_escape c @ quote_chars r"
  by (cases r) (auto simp: is_lead_def)

lemma quote_chars_lone_trail:
  "is_trail c \<Longrightarrow> quote_chars (c # r) = unicode_escape c @ quote_chars r"
  by (auto simp: is_lead_def is_trail_def)

lemma quote_chars_plain:
  "\<not> c < 32 \<Longrightarrow> c \<noteq> 34 \<Longrightarrow> c \<noteq> 92 \<Longrightarrow> \<not> is_lead c \<Longrightarrow> \<not> is_trail c \<Longrightarrow>
   quote_chars (c # r) = c # quote_chars r"
  by simp

lemma parse_chars_short:
  "parse_chars (92 # 98 # t) = cons_fst 8 (parse_chars t)"
  "parse_chars (92 # 116 # t) = cons_fst 9 (parse_chars t)"
  "parse_chars (92 # 110 # t) = cons_fst 10 (parse_chars t)"
  "parse_chars (92 # 102 # t) = cons_fst 12 (parse_chars t)"
  "parse_chars (92 # 114 # t) = cons_fst 13 (parse_chars t)"
  "parse_chars (92 # 34 # t) = cons_fst 34 (parse_chars t)"
  "parse_chars (92 # 92 # t) = cons_fst 92 (parse_chars t)"
  by (simp_all add: unescape_def)

lemma parse_chars_quote_chars:
  "parse_chars (quote_chars s @ 34 # rest) = Some (s, rest)"
proof (induction "length s" arbitrary: s rule: less_induct)
  case less
  note IH = less.hyps
  show ?case
  proof (cases s)
    case Nil
    then show ?thesis by simp
  next
    case (Cons c r)
    have r: "parse_chars (quote_chars r @ 34 # rest) = Some (r, rest)"
      using Cons by (intro IH) simp
    show ?thesis
    proof (cases "c = 8 \<or> c = 9 \<or> c = 10 \<or> c = 12 \<or> c = 13 \<or> c = 34 \<or> c = 92")
      case True
      then show ?thesis
        unfolding Cons
        by (elim disjE) (simp_all only: quote_chars_short parse_chars_short append_Cons append_Nil
            r cons_fst_Some)
    next
      case short: False
      show ?thesis
      proof (cases "c < 32")
        case True
        with short have "quote_chars (c # r) = unicode_escape c @ quote_chars r"
          by (simp add: quote_chars_control del: quote_chars.simps)
        with True show ?thesis
          unfolding Cons by (simp add: parse_chars_unicode_escape r del: parse_chars.simps quote_chars.simps)
      next
        case printable: False
        show ?thesis
        proof (cases "is_lead c")
          case lead: True
          show ?thesis
          proof (cases "r = [] \<or> \<not> is_trail (hd r)")
            case True
            with lead have "quote_chars (c # r) = unicode_escape c @ quote_chars r"
              by (rule quote_chars_lone_lead)
            with lead show ?thesis
              unfolding Cons
              by (simp add: parse_chars_unicode_escape surrogate_bounds r
                  del: parse_chars.simps quote_chars.simps)
          next
            case False
            then obtain d r1 where d: "r = d # r1" "is_trail d"
              by (cases r) auto
            have r1: "parse_chars (quote_chars r1 @ 34 # rest) = Some (r1, rest)"
              using Cons d by (intro IH) simp
            from lead d have "quote_chars (c # r) = c # d # quote_chars r1"
              by (simp add: quote_chars_pair del: quote_chars.simps)
            with lead d show ?thesis
              unfolding Cons
              by (simp add: parse_chars_literal surrogate_bounds r1
                  del: parse_chars.simps quote_chars.simps)
          qed
        next
          case no_lead: False
          show ?thesis
          proof (cases "is_trail c")
            case True
            then have "quote_chars (c # r) = unicode_escape c @ quote_chars r"
              by (rule quote_chars_lone_trail)
            with True show ?thesis
              unfolding Cons
              by (simp add: parse_chars_unicode_escape surrogate_bounds r
                  del: parse_chars.simps quote_chars.simps)
          next
            case False
            with short printable no_lead
            have "quote_chars (c # r) = c # quote_chars r"
              by (simp add: quote_chars_plain del: quote_chars.simps)
            with short printable show ?thesis
              unfolding Cons
              by (simp add: parse_chars_literal r del: parse_chars.simps quote_chars.simps)
          qed
        qed
      qed
    qed
  qed
qed

subsection \<open>One step of the parser\<close>

declare parse_value.simps [simp del] parse_elements.simps [simp del] parse_members.simps [simp del]

lemma skip_ws_nonws: "\<not> is_ws c \<Longrightarrow> skip_ws (c # r) = c # r"
  by (simp add: skip_ws_def)

lemma parse_value_string:
  "parse_value P (34 # r) =
     (case parse_chars r of None \<Rightarrow> None | Some (str, r1) \<Rightarrow> Some (Str str, r1))"
  by (subst parse_value.simps) (simp add: skip_ws_def is_ws_def)

lemma parse_value_literals:
  "parse_value P (js ''true'' @ rest) = Some (Bool True, rest)"
  "parse_value P (js ''false'' @ rest) = Some (Bool False, rest)"
  "parse_value P (js ''null'' @ rest) = Some (Null, rest)"
  by (subst parse_value.simps, simp add: skip_ws_def is_ws_def js_def)+

lemma parse_value_empty_array: "parse_value P (91 # 93 # rest) = Some (Arr [], rest)"
  by (subst parse_value.simps) (simp add: skip_ws_def is_ws_def)

lemma parse_value_empty_object: "parse_value P (123 # 125 # rest) = Some (Obj [], rest)"
  by (subst parse_value.simps) (simp add: skip_ws_def is_ws_def)

lemma parse_value_array:
  "\<not> is_ws c \<Longrightarrow> c \<noteq> 93 \<Longrightarrow>
   parse_value P (91 # c # r) =
     (case parse_elements P (c # r) of None \<Rightarrow> None | Some (vs, r2) \<Rightarrow> Some (Arr vs, r2))"
  by (subst parse_value.simps) (simp add: skip_ws_nonws is_ws_def)

lemma parse_value_object:
  "\<not> is_ws c \<Longrightarrow> c \<noteq> 125 \<Longrightarrow>
   parse_value P (123 # c # r) =
     (case parse_members P (c # r) of
        None \<Rightarrow> None
      | Some (ms, r2) \<Rightarrow> Some (obj_of_members ms, r2))"
  by (subst parse_value.simps) (simp add: skip_ws_nonws is_ws_def)

lemma parse_elements_more:
  "parse_value P s = Some (v, 44 # r1) \<Longrightarrow> Suc (length r1) < length s \<Longrightarrow>
   parse_elements P s =
     (case parse_elements P r1 of None \<Rightarrow> None | Some (vs, r2) \<Rightarrow> Some (v # vs, r2))"
  by (subst parse_elements.simps) (simp add: skip_ws_def is_ws_def)

lemma parse_elements_last:
  "parse_value P s = Some (v, 93 # r1) \<Longrightarrow> Suc (length r1) < length s \<Longrightarrow>
   parse_elements P s = Some ([v], r1)"
  by (subst parse_elements.simps) (simp add: skip_ws_def is_ws_def)

lemma parse_members_more:
  "parse_chars r = Some (k, 58 # r2) \<Longrightarrow> parse_value P r2 = Some (v, 44 # r4) \<Longrightarrow>
   length r2 < Suc (length r) \<Longrightarrow> Suc (length r4) < length r2 \<Longrightarrow>
   parse_members P (34 # r) =
     (case parse_members P r4 of None \<Rightarrow> None | Some (ms, r5) \<Rightarrow> Some ((k, v) # ms, r5))"
  by (subst parse_members.simps) (simp add: skip_ws_def is_ws_def)

lemma parse_members_last:
  "parse_chars r = Some (k, 58 # r2) \<Longrightarrow> parse_value P r2 = Some (v, 125 # r4) \<Longrightarrow>
   length r2 < Suc (length r) \<Longrightarrow> Suc (length r4) < length r2 \<Longrightarrow>
   parse_members P (34 # r) = Some ([(k, v)], r4)"
  by (subst parse_members.simps) (simp add: skip_ws_def is_ws_def)

subsection \<open>Values\<close>

lemma plain_stringify: "plain v \<Longrightarrow> JSON_stringify P v = Some (json_text P v)"
  by (cases v) (simp_all add: json_text_def)

lemma obj_put_fresh: "k \<notin> fst ` set acc \<Longrightarrow> obj_put acc k v = acc @ [(k, v)]"
  by (induction acc) auto

lemma foldl_obj_put:
  "distinct (map fst (acc @ ms)) \<Longrightarrow>
   foldl (\<lambda>acc (k, v). obj_put acc k v) acc ms = acc @ ms"
proof (induction ms arbitrary: acc)
  case Nil
  then show ?case by simp
next
  case (Cons m ms)
  obtain k v where m: "m = (k, v)" by (cases m)
  from Cons.prems m have "k \<notin> fst ` set acc" by auto
  then have p: "obj_put acc k v = acc @ [(k, v)]" by (rule obj_put_fresh)
  from Cons.prems m have "distinct (map fst ((acc @ [(k, v)]) @ ms))" by simp
  from Cons.IH [OF this] p m show ?case by simp
qed

lemma obj_of_members_distinct:
  "distinct (map fst ms) \<Longrightarrow> own_property_order ms = ms \<Longrightarrow> obj_of_members ms = Obj ms"
  using foldl_obj_put [of "[]" ms] by (simp add: obj_of_members_def)

lemma stringify_members:
  "list_all (\<lambda>(k, v). plain v) kvs \<Longrightarrow>
   concat (map (\<lambda>(k, v). case JSON_stringify P v of
                            None \<Rightarrow> []
                          | Some t \<Rightarrow> [QuoteJSONString k @ js '':'' @ t]) kvs) =
   map (member_text P) kvs"
  by (induction kvs) (auto simp: member_text_def plain_stringify)

lemma stringify_elements:
  "map (\<lambda>x. case JSON_stringify P x of None \<Rightarrow> js ''null'' | Some t \<Rightarrow> t) xs =
   map (json_text P) xs"
  by (rule map_cong) (simp_all add: json_text_def)

lemma json_text_Arr: "json_text P (Arr xs) = 91 # join [44] (map (json_text P) xs) @ [93]"
  by (simp add: json_text_def [of P "Arr xs"] stringify_elements) (simp add: js_def)

lemma json_text_Obj:
  "list_all (\<lambda>(k, v). plain v) kvs \<Longrightarrow>
   json_text P (Obj kvs) = 123 # join [44] (map (member_text P) kvs) @ [125]"
  by (simp add: json_text_def [of P "Obj kvs"] stringify_members) (simp add: js_def)

lemma member_text_Cons:
  "member_text P (k, v) = 34 # quote_chars k @ 34 # 58 # json_text P v"
  by (simp add: member_text_def QuoteJSONString_def js_def)

lemma json_text_head:
  "plain v \<Longrightarrow> \<exists>c r. json_text P v = c # r \<and> \<not> is_ws c \<and> c \<noteq> 93 \<and> c \<noteq> 125"
  by (cases v)
    (simp_all add: json_text_def js_def is_ws_def QuoteJSONString_def)

lemma json_text_nonempty: "plain v \<Longrightarrow> json_text P v \<noteq> []"
  using json_text_head [of v P] by auto

lemma parse_elements_join:
  assumes "xs \<noteq> []" and "list_all plain xs" and "\<forall>x \<in> set xs. reads_back P x"
  shows "parse_elements P (join [44] (map (json_text P) xs) @ 93 # rest) = Some (xs, rest)"
  using assms
proof (induction xs)
  case Nil
  then show ?case by simp
next
  case (Cons x xs)
  from Cons.prems have ne: "json_text P x \<noteq> []"
    by (simp add: json_text_nonempty)
  from Cons.prems have rb: "\<And>rest. parse_value P (json_text P x @ rest) = Some (x, rest)"
    by (simp add: reads_back_def)
  show ?case
  proof (cases xs)
    case Nil
    from ne have "Suc (length rest) < length (json_text P x @ 93 # rest)"
      by (cases "json_text P x") simp_all
    from parse_elements_last [OF rb this] Nil show ?thesis
      by simp
  next
    case (Cons y ys)
    let ?r = "join [44] (map (json_text P) xs) @ 93 # rest"
    from ne have "Suc (length ?r) < length (json_text P x @ 44 # ?r)"
      by (cases "json_text P x") simp_all
    from parse_elements_more [OF rb this]
    have "parse_elements P (json_text P x @ 44 # ?r) =
            (case parse_elements P ?r of None \<Rightarrow> None | Some (vs, r2) \<Rightarrow> Some (x # vs, r2))" .
    moreover from Cons.IH Cons.prems Cons have "parse_elements P ?r = Some (xs, rest)"
      by simp
    ultimately show ?thesis
      using Cons by simp
  qed
qed

lemma parse_members_join:
  assumes "kvs \<noteq> []" and "list_all (\<lambda>(k, v). plain v) kvs"
    and "\<forall>m \<in> set kvs. reads_back P (snd m)"
  shows "parse_members P (join [44] (map (member_text P) kvs) @ 125 # rest) = Some (kvs, rest)"
  using assms
proof (induction kvs)
  case Nil
  then show ?case by simp
next
  case (Cons m ms)
  obtain k v where m: "m = (k, v)" by (cases m)
  from Cons.prems m have ne: "json_text P v \<noteq> []"
    by (simp add: json_text_nonempty)
  from Cons.prems m have rb: "\<And>rest. parse_value P (json_text P v @ rest) = Some (v, rest)"
    by (simp add: reads_back_def)
  have pc: "\<And>r. parse_chars (quote_chars k @ 34 # 58 # r) = Some (k, 58 # r)"
    by (rule parse_chars_quote_chars)
  show ?case
  proof (cases ms)
    case Nil
    let ?r2 = "json_text P v @ 125 # rest"
    have g1: "length ?r2 < Suc (length (quote_chars k @ 34 # 58 # ?r2))"
      by simp
    from ne have g2: "Suc (length rest) < length ?r2"
      by (cases "json_text P v") simp_all
    from parse_members_last [OF pc rb g1 g2] Nil m show ?thesis
      by (simp add: member_text_Cons)
  next
    case (Cons y ys)
    let ?r = "join [44] (map (member_text P) ms) @ 125 # rest"
    let ?r2 = "json_text P v @ 44 # ?r"
    have g1: "length ?r2 < Suc (length (quote_chars k @ 34 # 58 # ?r2))"
      by simp
    from ne have g2: "Suc (length ?r) < length ?r2"
      by (cases "json_text P v") simp_all
    from parse_members_more [OF pc rb g1 g2]
    have "parse_members P (34 # quote_chars k @ 34 # 58 # ?r2) =
            (case parse_members P ?r of None \<Rightarrow> None | Some (ms', r5) \<Rightarrow> Some ((k, v) # ms', r5))" .
    moreover from Cons.IH Cons.prems Cons have "parse_members P ?r = Some (ms, rest)"
      by simp
    ultimately show ?thesis
      using Cons m by (simp add: member_text_Cons)
  qed
qed

lemma join_head:
  "xs \<noteq> [] \<Longrightarrow> hd xs = c # r \<Longrightarrow> \<exists>r'. join sep xs @ t = c # r'"
  by (cases "(sep, xs)" rule: join.cases) auto

lemma plain_reads_back: "plain v \<Longrightarrow> reads_back P v"
proof (induction v)
  case Undefined
  then show ?case by simp
next
  case Null
  show ?case
    by (simp add: reads_back_def json_text_def parse_value_literals)
next
  case (Bool b)
  show ?case
    by (simp add: reads_back_def json_text_def parse_value_literals)
next
  case (Num n)
  then show ?case by simp
next
  case (Str s)
  show ?case
    by (simp add: reads_back_def json_text_def QuoteJSONString_def parse_value_string
        parse_chars_quote_chars)
next
  case (Arr xs)
  show ?case
  proof (cases xs)
    case Nil
    then show ?thesis
      by (simp add: reads_back_def json_text_Arr parse_value_empty_array)
  next
    case (Cons y ys)
    from Arr have all: "list_all plain xs" and rb: "\<forall>x \<in> set xs. reads_back P x"
      by (auto simp: list_all_iff)
    from Cons have ne: "xs \<noteq> []" by simp
    from all Cons have "plain y" by simp
    from json_text_head [OF this, of P] obtain c r
      where h: "json_text P y = c # r" "\<not> is_ws c" "c \<noteq> 93"
      by blast
    show ?thesis
      unfolding reads_back_def
    proof
      fix rest
      from Cons h obtain r' where
        j: "join [44] (map (json_text P) xs) @ 93 # rest = c # r'"
        using join_head [of "map (json_text P) xs" c r "[44]" "93 # rest"] by auto
      have "parse_value P (91 # c # r') =
              (case parse_elements P (c # r') of None \<Rightarrow> None | Some (vs, r2) \<Rightarrow> Some (Arr vs, r2))"
        using h by (intro parse_value_array)
      with j parse_elements_join [OF ne all rb, of rest]
      show "parse_value P (json_text P (Arr xs) @ rest) = Some (Arr xs, rest)"
        by (simp add: json_text_Arr)
    qed
  qed
next
  case (Obj kvs)
  from Obj.prems have d: "distinct (map fst kvs)" and o: "own_property_order kvs = kvs"
    and all: "list_all (\<lambda>(k, v). plain v) kvs"
    by simp_all
  have rb: "\<forall>m \<in> set kvs. reads_back P (snd m)"
  proof
    fix m assume m: "m \<in> set kvs"
    with all have "plain (snd m)"
      by (auto simp: list_all_iff)
    moreover have "snd m \<in> Basic_BNFs.snds m"
      by (cases m) simp
    ultimately show "reads_back P (snd m)"
      using Obj.IH m by blast
  qed
  show ?case
  proof (cases kvs)
    case Nil
    then show ?thesis
      by (simp add: reads_back_def json_text_Obj parse_value_empty_object)
  next
    case (Cons m ms)
    then have ne: "kvs \<noteq> []" by simp
    show ?thesis
      unfolding reads_back_def
    proof
      fix rest
      obtain k v where m: "m = (k, v)" by (cases m)
      from Cons m obtain r' where
        j: "join [44] (map (member_text P) kvs) @ 125 # rest = 34 # r'"
        using join_head [of "map (member_text P) kvs" 34 _ "[44]" "125 # rest"]
        by (auto simp: member_text_Cons)
      have "parse_value P (123 # 34 # r') =
              (case parse_members P (34 # r') of
                 None \<Rightarrow> None
               | Some (ms, r2) \<Rightarrow> Some (obj_of_members ms, r2))"
        by (intro parse_value_object) (simp_all add: is_ws_def)
      with j parse_members_join [OF ne all rb, of rest] obj_of_members_distinct [OF d o] all
      show "parse_value P (json_text P (Obj kvs) @ rest) = Some (Obj kvs, rest)"
        by (simp add: json_text_Obj)
    qed
  qed
qed

lemma JSON_parse_stringify:
  assumes "plain v"
  shows "\<exists>t. JSON_stringify P v = Some t \<and> JSON_parse P t = Inr v"
proof -
  from plain_reads_back [OF assms, of P]
  have "parse_value P (json_text P v @ []) = Some (v, [])"
    unfolding reads_back_def by blast
  then have "JSON_parse P (json_text P v) = Inr v"
    by (simp add: JSON_parse_def skip_ws_def)
  with plain_stringify [OF assms, of P] show ?thesis
    by simp
qed

section \<open>Evaluation\<close>

lemma pad_numeral:
  "pad (numeral k) n = pad (pred_numeral k) (n div 10) @ [48 + n mod 10]"
proof -
  have "pad (Suc (pred_numeral k)) n = pad (pred_numeral k) (n div 10) @ [48 + n mod 10]"
    by (rule pad.simps)
  then show ?thesis
    by (simp only: numeral_eq_Suc [of k, symmetric])
qed

lemma toISOString_test_expiry:
  "Date_toISOString 1704114000000 = Inr (js ''2024-01-01T13:00:00.000Z'')"
  apply (simp only: Date_toISOString_def civil_from_days_def Let_def max_time_def)
  apply (simp add: pad_numeral js_def)
  done

lemma toISOString_nonempty: "Date_toISOString t = Inr e \<Longrightarrow> e \<noteq> []"
  by (auto simp: Date_toISOString_def Let_def split: if_splits prod.splits)

lemma createAuthSession_test:
  "createAuthSession test_now mockUser (Str (js ''token123'')) 3600 = Inr test_session"
  by (simp add: createAuthSession_def test_now_def test_session_def toISOString_test_expiry)

lemma decimal_3600: "decimal 3600 = js ''3600''"
  by (simp add: decimal.simps js_def)

lemma quote_chars_ascii:
  "\<forall>c \<in> set s. 32 \<le> c \<and> c < 55296 \<and> c \<noteq> 34 \<and> c \<noteq> 92 \<Longrightarrow> quote_chars s = s"
  by (induction s) (auto simp: is_lead_def is_trail_def)

lemma quote_chars_js: "list_all safe_char s \<Longrightarrow> quote_chars (js s) = js s"
proof (rule quote_chars_ascii, rule ballI)
  fix c assume s: "list_all safe_char s" and c: "c \<in> set (js s)"
  then obtain d where d: "d \<in> set s" "c = of_char d"
    by (auto simp: js_def)
  with s have "safe_char d"
    by (simp add: list_all_iff)
  moreover have "(of_char d :: nat) < 55296"
    using nat_of_char_less_256 [of d] by linarith
  moreover have "(of_char d :: nat) = 34 \<longleftrightarrow> d = CHR 0x22"
    using of_char_eq_iff [of d "CHR 0x22", where ?'a = nat] by simp
  moreover have "(of_char d :: nat) = 92 \<longleftrightarrow> d = CHR 0x5C"
    using of_char_eq_iff [of d "CHR 0x5C", where ?'a = nat] by simp
  ultimately show "32 \<le> c \<and> c < 55296 \<and> c \<noteq> 34 \<and> c \<noteq> 92"
    using d by (simp add: safe_char_def)
qed

lemma QuoteJSONString_js:
  "list_all safe_char s \<Longrightarrow> QuoteJSONString (js s) = js ([CHR 0x22] @ s @ [CHR 0x22])"
  by (simp add: QuoteJSONString_def quote_chars_js) (simp add: js_def)

lemma test_session_json:
  \<open>JSON_stringify P test_session =
     Some (js ''{"user":{"id":"user-123","google_id":"123456789","email":"test@example.com","name":"Test User","avatar_url":"https://example.com/avatar.jpg","created_at":"2024-01-01T00:00:00Z","updated_at":"2024-01-01T00:00:00Z"},"accessToken":"token123","expiresAt":"2024-01-01T13:00:00.000Z"}'')\<close>
  by (simp add: test_session_def mockUser_def QuoteJSONString_js safe_char_def
        js_append [symmetric])

lemmas json_eval =
  JSON_parse_def js_def skip_ws_def is_ws_def scan_number_def scan_int_def scan_digits_def
  is_digit_def scan_frac_def scan_exp_def cons_fst_def obj_of_members_def hex_value_def
  unescape_def parse_value.simps parse_elements.simps parse_members.simps
  own_property_order_no_index array_index_nondigit

lemma parse_small:
  \<open>JSON_parse P (js ''{"expiresAt":"2024-01-01T13:00:00.000Z"}'') =
     Inr (Obj [(js ''expiresAt'', Str (js ''2024-01-01T13:00:00.000Z''))])\<close>
  by (simp add: json_eval)

lemma parse_garbage: \<open>JSON_parse P (js ''not json'') = Inl SyntaxError\<close>
  by (simp add: json_eval)

lemma parse_empty: \<open>JSON_parse P [] = Inl SyntaxError\<close>
  by (simp add: json_eval)

lemma parse_wrong_shape: \<open>JSON_parse P (js ''{"foo":"bar"}'') = Inr (Obj [(js ''foo'', Str (js ''bar''))])\<close>
  by (simp add: json_eval)

lemma mockUser_plain: "plain mockUser"
  by (simp add: mockUser_def object_order)

lemma test_session_plain: "plain test_session"
  by (simp add: test_session_def mockUser_plain object_order)

lemma parse_test_cookie: "JSON_parse P test_cookie = Inr test_session"
  using JSON_parse_stringify [OF test_session_plain, of P]
  by (simp add: test_session_json test_cookie_def)


lemma test_platform_parse_expiry:
  "Date_parse test_platform (js ''2024-01-01T13:00:00.000Z'') = Some 1704114000000"
  by (simp add: test_platform_def known_timestamps_def)

lemma test_platform_parse_soon:
  "Date_parse test_platform (js ''2024-01-01T12:00:00.500Z'') = Some 1704110400500"
  by (simp add: test_platform_def known_timestamps_def)

lemma test_platform_parse_past:
  "Date_parse test_platform (js ''2024-01-01T11:00:00.000Z'') = Some 1704106800000"
  by (simp add: test_platform_def known_timestamps_def)

lemma test_platform_parse_garbage:
  "Date_parse test_platform (js ''not-a-date'') = None"
  by (simp add: test_platform_def known_timestamps_def)

lemma test_session_expiresAt:
  "property test_session (js ''expiresAt'') = Str (js ''2024-01-01T13:00:00.000Z'')"
  by (simp add: test_session_def)

section \<open>The logout route\<close>

lemma headers_set_lookup: "headers (headers_set r name v) name = Some v"
  by (simp add: headers_set_def)

text \<open>
  C8. \<^verbatim>\<open>createClearSessionCookie\<close> is the fixed clear form. The logout handler sets exactly
  that string as the \<^verbatim>\<open>Set-Cookie\<close> header of the response it returns, when the redirect
  helper returns at once, and also when its first call throws and its second returns.
\<close>

theorem logout_attaches_clear_cookie:
  fixes redirect :: "'w \<Rightarrow> string \<Rightarrow> (exn + response) \<times> 'w"
  shows "createClearSessionCookie =
           js ''session=; Path=/; Expires=Thu, 01 Jan 1970 00:00:00 GMT; HttpOnly; SameSite=Lax''
       \<and> (\<forall>resp w1. redirect w ''/?logout=success'' = (Inr resp, w1) \<longrightarrow>
              logout_POST redirect w =
                (Inr (headers_set resp ''Set-Cookie'' createClearSessionCookie), [], w1))
       \<and> (\<forall>e w1 resp w2.
              redirect w ''/?logout=success'' = (Inl e, w1) \<longrightarrow>
              redirect w1 ''/?error=logout_failed'' = (Inr resp, w2) \<longrightarrow>
              logout_POST redirect w =
                (Inr (headers_set resp ''Set-Cookie'' createClearSessionCookie),
                 [Console_error ''Logout error:''], w2))
       \<and> (\<forall>resp. headers (headers_set resp ''Set-Cookie'' createClearSessionCookie) ''Set-Cookie'' =
              Some createClearSessionCookie)"
  by (simp add: createClearSessionCookie_def logout_POST_def headers_set_lookup)

theorem logout_attaches_clear_cookie_witness:
  "logout_POST mock_redirect 0 =
     (Inr (headers_set mock_response ''Set-Cookie'' createClearSessionCookie), [], 1)
   \<and> logout_POST mock_redirect_failing_once 0 =
     (Inr (headers_set mock_response ''Set-Cookie'' createClearSessionCookie),
      [Console_error ''Logout error:''], 2)"
proof -
  have a: "mock_redirect 0 ''/?logout=success'' = (Inr mock_response, 1)"
    by (simp add: mock_redirect_def)
  have b: "mock_redirect_failing_once 0 ''/?logout=success'' = (Inl (Error ''Redirect failed''), 1)"
    by (simp add: mock_redirect_failing_once_def)
  have c: "mock_redirect_failing_once 1 ''/?error=logout_failed'' = (Inr mock_response, 2)"
    by (simp add: mock_redirect_failing_once_def)
  from a b c show ?thesis
    using logout_attaches_clear_cookie [of mock_redirect 0]
      logout_attaches_clear_cookie [of mock_redirect_failing_once 0]
    by blast
qed

section \<open>The cookie string\<close>

lemma serializeSessionToCookie_string:
  \<open>serializeSessionToCookie P session isProduction =
     js ''session='' @ template (JSON_stringify P session) @ js ''; HttpOnly'' @
     (if isProduction then js ''; Secure'' else []) @
     js ''; SameSite=lax; Max-Age=3600; Path=/''\<close>
  by (simp add: serializeSessionToCookie_def getSessionCookieOptions_def Let_def decimal_3600)
    (simp add: js_def)

text \<open>
  C6, as amended. For every session and every production flag, the cookie string is
  \<^verbatim>\<open>session=<json>; HttpOnly; Secure?; SameSite=lax; Max-Age=3600; Path=/\<close>: the segments in
  this order, joined by \<^verbatim>\<open>; \<close>, \<^verbatim>\<open>Secure\<close> present exactly in production, the same-site
  value in lower case as the options hold it. \<^verbatim>\<open><json>\<close> is \<^verbatim>\<open>JSON.stringify(session)\<close>; for
  a session that \<^verbatim>\<open>createAuthSession\<close> made it is the object of \<^verbatim>\<open>user\<close>, \<^verbatim>\<open>accessToken\<close>
  and \<^verbatim>\<open>expiresAt\<close>, in this order.
\<close>

theorem serializeSessionToCookie_format:
  \<open>serializeSessionToCookie P session isProduction =
     js ''session='' @ template (JSON_stringify P session) @ js ''; HttpOnly'' @
     (if isProduction then js ''; Secure'' else []) @
     js ''; SameSite=lax; Max-Age=3600; Path=/''
   \<and> (\<forall>now user u token ttl.
          createAuthSession now user (Str token) ttl = Inr session \<longrightarrow>
          JSON_stringify P user = Some u \<longrightarrow>
          (\<exists>expiresAt.
             Date_toISOString (now + ttl * 1000) = Inr expiresAt \<and>
             template (JSON_stringify P session) =
               js ''{"user":'' @ u @ js '',"accessToken":'' @ QuoteJSONString token @
               js '',"expiresAt":'' @ QuoteJSONString expiresAt @ js ''}''))\<close>
proof (intro conjI allI impI)
  show \<open>serializeSessionToCookie P session isProduction =
     js ''session='' @ template (JSON_stringify P session) @ js ''; HttpOnly'' @
     (if isProduction then js ''; Secure'' else []) @
     js ''; SameSite=lax; Max-Age=3600; Path=/''\<close>
    by (simp add: serializeSessionToCookie_def getSessionCookieOptions_def Let_def decimal_3600)
      (simp add: js_def)
next
  fix now user u token ttl
  assume c: "createAuthSession now user (Str token) ttl = Inr session"
    and u: "JSON_stringify P user = Some u"
  from c obtain expiresAt where e: "Date_toISOString (now + ttl * 1000) = Inr expiresAt"
    and s: "session = Obj [(js ''user'', user), (js ''accessToken'', Str token),
                           (js ''expiresAt'', Str expiresAt)]"
    by (auto simp: createAuthSession_def split: sum.splits)
  have \<open>template (JSON_stringify P session) =
          js ''{"user":'' @ u @ js '',"accessToken":'' @ QuoteJSONString token @
          js '',"expiresAt":'' @ QuoteJSONString expiresAt @ js ''}''\<close>
    by (simp add: s u template_def QuoteJSONString_js safe_char_def) (simp add: js_def)
  with e show \<open>\<exists>expiresAt.
             Date_toISOString (now + ttl * 1000) = Inr expiresAt \<and>
             template (JSON_stringify P session) =
               js ''{"user":'' @ u @ js '',"accessToken":'' @ QuoteJSONString token @
               js '',"expiresAt":'' @ QuoteJSONString expiresAt @ js ''}''\<close>
    by blast
qed

theorem serializeSessionToCookie_format_witness:
  \<open>serializeSessionToCookie test_platform test_session True =
     js ''session={"user":{"id":"user-123","google_id":"123456789","email":"test@example.com","name":"Test User","avatar_url":"https://example.com/avatar.jpg","created_at":"2024-01-01T00:00:00Z","updated_at":"2024-01-01T00:00:00Z"},"accessToken":"token123","expiresAt":"2024-01-01T13:00:00.000Z"}; HttpOnly; Secure; SameSite=lax; Max-Age=3600; Path=/''\<close>
  using serializeSessionToCookie_format [of test_platform test_session True]
  by (simp add: test_session_json template_def js_append [symmetric])

text \<open>
  The claim as stated fails on the session of the tests: the same-site segment the code
  writes is \<^verbatim>\<open>SameSite=lax\<close>, not \<^verbatim>\<open>SameSite=Lax\<close>.
\<close>

theorem serializeSessionToCookie_SameSite_counterexample:
  \<open>serializeSessionToCookie test_platform test_session False =
     js ''session={"user":{"id":"user-123","google_id":"123456789","email":"test@example.com","name":"Test User","avatar_url":"https://example.com/avatar.jpg","created_at":"2024-01-01T00:00:00Z","updated_at":"2024-01-01T00:00:00Z"},"accessToken":"token123","expiresAt":"2024-01-01T13:00:00.000Z"}; HttpOnly; SameSite=lax; Max-Age=3600; Path=/''
   \<and> serializeSessionToCookie test_platform test_session False \<noteq>
     js ''session='' @ template (JSON_stringify test_platform test_session) @
     js ''; HttpOnly; SameSite=Lax; Max-Age=3600; Path=/''\<close>
  by (simp add: serializeSessionToCookie_def getSessionCookieOptions_def Let_def decimal_3600
        test_session_json template_def js_append [symmetric])

section \<open>Sessions of the declared type\<close>


lemma not_truthy_property_absent:
  "\<not> truthy session \<Longrightarrow> property session k = Undefined"
  by (cases session) auto

lemma isSessionValid_string:
  assumes "property session (js ''expiresAt'') = Str s" and "s \<noteq> []"
  shows "isSessionValid P now session =
           Inr (case Date_parse P s of None \<Rightarrow> False | Some t \<Rightarrow> now < t)"
proof -
  from assms(1) have "truthy session"
    by (cases session) auto
  with assms show ?thesis
    by (simp add: isSessionValid_def)
qed












section \<open>\<^verbatim>\<open>validateUser\<close> and \<^verbatim>\<open>requireValidSession\<close>\<close>








lemma test_session_valid: "isSessionValid test_platform test_now test_session = Inr True"
  by (simp add: isSessionValid_string [OF test_session_expiresAt] test_platform_parse_expiry
      test_now_def)




section \<open>\<^verbatim>\<open>getSessionTimeRemaining\<close>\<close>

lemma getSessionTimeRemaining_absent:
  assumes "\<not> truthy session \<or> \<not> truthy (property session (js ''expiresAt''))"
  shows "getSessionTimeRemaining P now session = Inr (Some 0)"
  using assms by (auto simp: getSessionTimeRemaining_def)

lemma getSessionTimeRemaining_dated:
  assumes "truthy session" and "truthy (property session (js ''expiresAt''))"
    and "Date_getTime P (property session (js ''expiresAt'')) = Inr (Some t)"
  shows "getSessionTimeRemaining P now session = Inr (Some (max 0 ((t - now) div 1000)))"
  using assms by (simp add: getSessionTimeRemaining_def Math_max_def Math_floor_div_def)

lemma getSessionTimeRemaining_undated:
  assumes "truthy session" and "truthy (property session (js ''expiresAt''))"
    and "Date_getTime P (property session (js ''expiresAt'')) = Inr None"
  shows "getSessionTimeRemaining P now session = Inr None"
  using assms by (simp add: getSessionTimeRemaining_def Math_max_def Math_floor_div_def)

lemma isSessionValid_dated:
  assumes "truthy session" and "truthy (property session (js ''expiresAt''))"
    and "Date_getTime P (property session (js ''expiresAt'')) = Inr (Some t)"
  shows "isSessionValid P now session = Inr (now < t)"
  using assms by (simp add: isSessionValid_def)

text \<open>
  C7 fails on the code. \<^verbatim>\<open>getSessionTimeRemaining\<close> returns NaN (\<open>None\<close>), not a
  non-negative integer, for a session whose \<^verbatim>\<open>expiresAt\<close> is a non-empty string that is
  no date: \<^verbatim>\<open>Math.max(0, NaN)\<close> is NaN.
\<close>

theorem getSessionTimeRemaining_NaN:
  "getSessionTimeRemaining test_platform test_now undated_session = Inr None"
proof -
  have "property undated_session (js ''expiresAt'') = Str (js ''not-a-date'')"
    by (simp add: undated_session_def)
  moreover have "truthy undated_session"
    by (simp add: undated_session_def)
  ultimately show ?thesis
    by (simp add: getSessionTimeRemaining_undated test_platform_parse_garbage)
qed

theorem getSessionTimeRemaining_NaN_witness:
  "\<not> (\<exists>n. getSessionTimeRemaining test_platform test_now undated_session = Inr (Some n))"
  using getSessionTimeRemaining_NaN by simp

text \<open>
  What does hold: the result is 0 when the session or its \<^verbatim>\<open>expiresAt\<close> is absent (or
  falsy), and \<open>max 0 ((expiry - now) div 1000)\<close>, a non-negative integer, when
  \<^verbatim>\<open>expiresAt\<close> is a string that parses as a date.
\<close>

lemma getSessionTimeRemaining_parsed:
  assumes "property session (js ''expiresAt'') = Str s" and "s \<noteq> []"
    and "Date_parse P s = Some t"
  shows "getSessionTimeRemaining P now session = Inr (Some (max 0 ((t - now) div 1000)))"
    and "0 \<le> max 0 ((t - now) div 1000)"
proof -
  from assms(1) have "truthy session"
    by (cases session) auto
  with assms show "getSessionTimeRemaining P now session = Inr (Some (max 0 ((t - now) div 1000)))"
    by (simp add: getSessionTimeRemaining_dated)
qed simp

text \<open>
  C10. Read at the same instant: when \<^verbatim>\<open>getSessionTimeRemaining\<close> returns a number above
  0, \<^verbatim>\<open>isSessionValid\<close> returns true. The converse fails: for every session whose expiry
  lies strictly between now and now + 1000 milliseconds \<^verbatim>\<open>isSessionValid\<close> is true and
  \<^verbatim>\<open>getSessionTimeRemaining\<close> returns 0.
\<close>

theorem remaining_positive_implies_valid:
  "(\<forall>n. getSessionTimeRemaining P now session = Inr (Some n) \<and> 0 < n \<longrightarrow>
        isSessionValid P now session = Inr True)
   \<and> (\<forall>t. truthy session \<and> truthy (property session (js ''expiresAt'')) \<and>
          Date_getTime P (property session (js ''expiresAt'')) = Inr (Some t) \<and>
          now < t \<and> t < now + 1000 \<longrightarrow>
          isSessionValid P now session = Inr True \<and>
          getSessionTimeRemaining P now session = Inr (Some 0))"
proof -
  have a: "isSessionValid P now session = Inr True"
    if r: "getSessionTimeRemaining P now session = Inr (Some n)" and n: "0 < n" for n
  proof (cases "\<not> truthy session \<or> \<not> truthy (property session (js ''expiresAt''))")
    case True
    with r n show ?thesis
      by (simp add: getSessionTimeRemaining_absent)
  next
    case False
    then have ts: "truthy session" "truthy (property session (js ''expiresAt''))"
      by simp_all
    show ?thesis
    proof (cases "Date_getTime P (property session (js ''expiresAt''))")
      case (Inl e)
      with ts r show ?thesis
        by (simp add: getSessionTimeRemaining_def)
    next
      case (Inr x)
      show ?thesis
      proof (cases x)
        case None
        with Inr ts r show ?thesis
          by (simp add: getSessionTimeRemaining_undated)
      next
        case (Some t)
        with Inr ts r have "n = max 0 ((t - now) div 1000)"
          by (simp add: getSessionTimeRemaining_dated)
        with n have "0 < (t - now) div 1000"
          by simp
        then have "now < t"
          by (simp add: pos_imp_zdiv_pos_iff)
        with Some Inr ts show ?thesis
          by (simp add: isSessionValid_dated)
      qed
    qed
  qed
  have b: "isSessionValid P now session = Inr True \<and>
          getSessionTimeRemaining P now session = Inr (Some 0)"
    if "truthy session \<and> truthy (property session (js ''expiresAt'')) \<and>
          Date_getTime P (property session (js ''expiresAt'')) = Inr (Some t) \<and>
          now < t \<and> t < now + 1000" for t
  proof -
    from that have "(t - now) div 1000 = 0"
      by (simp add: div_pos_pos_trivial)
    with that show ?thesis
      by (simp add: isSessionValid_dated getSessionTimeRemaining_dated)
  qed
  from a b show ?thesis
    by blast
qed

theorem remaining_positive_implies_valid_witness:
  "getSessionTimeRemaining test_platform test_now test_session = Inr (Some 3600)
   \<and> isSessionValid test_platform test_now test_session = Inr True
   \<and> isSessionValid test_platform test_now expiring_session = Inr True
   \<and> getSessionTimeRemaining test_platform test_now expiring_session = Inr (Some 0)"
proof -
  have r: "getSessionTimeRemaining test_platform test_now test_session = Inr (Some 3600)"
    using getSessionTimeRemaining_parsed(1) [OF test_session_expiresAt _ test_platform_parse_expiry,
        of test_now]
    by (simp add: test_now_def)
  from remaining_positive_implies_valid [of test_platform test_now test_session] r
  have v: "isSessionValid test_platform test_now test_session = Inr True"
    by simp
  have e: "property expiring_session (js ''expiresAt'') = Str (js ''2024-01-01T12:00:00.500Z'')"
    "truthy expiring_session"
    by (simp_all add: expiring_session_def)
  then have "truthy expiring_session \<and> truthy (property expiring_session (js ''expiresAt'')) \<and>
          Date_getTime test_platform (property expiring_session (js ''expiresAt'')) =
            Inr (Some 1704110400500) \<and>
          test_now < 1704110400500 \<and> 1704110400500 < test_now + 1000"
    by (simp add: test_platform_parse_soon test_now_def)
  with remaining_positive_implies_valid [of test_platform test_now expiring_session]
  have "isSessionValid test_platform test_now expiring_session = Inr True \<and>
        getSessionTimeRemaining test_platform test_now expiring_session = Inr (Some 0)"
    by blast
  with r v show ?thesis
    by simp
qed

section \<open>\<^verbatim>\<open>parseSessionFromCookie\<close> and the middleware\<close>

lemma isSessionValid_truthy: "isSessionValid P now v = Inr True \<Longrightarrow> truthy v"
  by (auto simp: isSessionValid_def split: if_splits)

lemma parseSessionFromCookie_accepted:
  "accepted P now raw v \<Longrightarrow> parseSessionFromCookie P now raw = Inr v"
  by (simp add: accepted_def parseSessionFromCookie_def catch_def)

lemma parseSessionFromCookie_rejected:
  "\<not> (\<exists>v. accepted P now raw v) \<Longrightarrow> parseSessionFromCookie P now raw = Inr Null"
  by (auto simp: accepted_def parseSessionFromCookie_def catch_def split: sum.splits)

text \<open>
  C3. \<^verbatim>\<open>parseSessionFromCookie\<close> is total: on every string it returns, a session or
  \<^verbatim>\<open>null\<close>, and throws nothing. When \<^verbatim>\<open>JSON.parse\<close> fails it returns \<^verbatim>\<open>null\<close>. Every result
  other than \<^verbatim>\<open>null\<close> is the parsed value and satisfies \<^verbatim>\<open>isSessionValid\<close>; a parsed value
  that does not (expired, without expiry, of the wrong shape) gives \<^verbatim>\<open>null\<close>.
\<close>

theorem parseSessionFromCookie_total:
  "(\<exists>v. parseSessionFromCookie P now cookieValue = Inr v)
   \<and> (\<forall>e. JSON_parse P cookieValue = Inl e \<longrightarrow>
          parseSessionFromCookie P now cookieValue = Inr Null)
   \<and> (\<forall>v. parseSessionFromCookie P now cookieValue = Inr v \<and> v \<noteq> Null \<longrightarrow>
          JSON_parse P cookieValue = Inr v \<and> isSessionValid P now v = Inr True)
   \<and> (\<forall>v. JSON_parse P cookieValue = Inr v \<and> isSessionValid P now v \<noteq> Inr True \<longrightarrow>
          parseSessionFromCookie P now cookieValue = Inr Null)"
proof (cases "\<exists>v. accepted P now cookieValue v")
  case True
  then obtain v where v: "accepted P now cookieValue v"
    by blast
  then have "parseSessionFromCookie P now cookieValue = Inr v"
    by (rule parseSessionFromCookie_accepted)
  with v show ?thesis
    by (auto simp: accepted_def)
next
  case False
  then have "parseSessionFromCookie P now cookieValue = Inr Null"
    by (rule parseSessionFromCookie_rejected)
  with False show ?thesis
    by (auto simp: accepted_def)
qed

lemma expired_small_parse:
  \<open>JSON_parse P (js ''{"expiresAt":"2024-01-01T11:00:00.000Z"}'') =
     Inr (Obj [(js ''expiresAt'', Str (js ''2024-01-01T11:00:00.000Z''))])\<close>
  by (simp add: json_eval)

lemma expired_small_invalid:
  "isSessionValid test_platform test_now
     (Obj [(js ''expiresAt'', Str (js ''2024-01-01T11:00:00.000Z''))]) = Inr False"
  by (simp add: isSessionValid_def test_platform_parse_past test_now_def)

lemma wrong_shape_invalid:
  "isSessionValid P now (Obj [(js ''foo'', Str (js ''bar''))]) = Inr False"
  by (simp add: isSessionValid_def)

lemma test_session_accepted:
  \<open>accepted test_platform test_now test_cookie test_session\<close>
  by (simp add: accepted_def parse_test_cookie test_session_valid)

theorem parseSessionFromCookie_total_witness:
  \<open>parseSessionFromCookie test_platform test_now [] = Inr Null
   \<and> parseSessionFromCookie test_platform test_now (js ''not json'') = Inr Null
   \<and> parseSessionFromCookie test_platform test_now (js ''{"foo":"bar"}'') = Inr Null
   \<and> parseSessionFromCookie test_platform test_now
        (js ''{"expiresAt":"2024-01-01T11:00:00.000Z"}'') = Inr Null
   \<and> (\<exists>v. parseSessionFromCookie test_platform test_now test_cookie = Inr v)\<close>
proof -
  have 1: "parseSessionFromCookie test_platform test_now [] = Inr Null"
    using parseSessionFromCookie_total [of test_platform test_now "[]"] parse_empty [of test_platform]
    by blast
  have 2: "parseSessionFromCookie test_platform test_now (js ''not json'') = Inr Null"
    using parseSessionFromCookie_total [of test_platform test_now "js ''not json''"]
      parse_garbage [of test_platform]
    by blast
  have 3: \<open>parseSessionFromCookie test_platform test_now (js ''{"foo":"bar"}'') = Inr Null\<close>
    using parseSessionFromCookie_total [of test_platform test_now \<open>js ''{"foo":"bar"}''\<close>]
      parse_wrong_shape [of test_platform] wrong_shape_invalid [of test_platform test_now]
    by auto
  have 4: \<open>parseSessionFromCookie test_platform test_now
        (js ''{"expiresAt":"2024-01-01T11:00:00.000Z"}'') = Inr Null\<close>
    using parseSessionFromCookie_total [of test_platform test_now
        \<open>js ''{"expiresAt":"2024-01-01T11:00:00.000Z"}''\<close>]
      expired_small_parse [of test_platform] expired_small_invalid
    by auto
  from 1 2 3 4
    parseSessionFromCookie_total [of test_platform test_now test_cookie]
  show ?thesis
    by blast
qed

text \<open>
  C2. After the middleware has run on a request: \<^verbatim>\<open>locals.isAuthenticated\<close> is true exactly
  when a session cookie was present, parsed as JSON and satisfied \<^verbatim>\<open>isSessionValid\<close>; then
  \<^verbatim>\<open>locals.session\<close> is the parsed session and \<^verbatim>\<open>locals.user\<close> its \<^verbatim>\<open>user\<close> (\<^verbatim>\<open>null\<close> when
  that property is missing or falsy). When the cookie was present but malformed or invalid, the
  cookie is deleted and the locals are \<^verbatim>\<open>null\<close>, \<^verbatim>\<open>null\<close> and false. When no cookie was
  present nothing is deleted. In every case the result is that of the downstream handler
  on these locals.
\<close>

theorem onRequest_decision:
  "(case onRequest P now sessionCookie downstream of
      (ctx, effects, result) \<Rightarrow>
        (locals_isAuthenticated ctx \<longleftrightarrow>
           (\<exists>raw v. sessionCookie = Some raw \<and> accepted P now raw v))
        \<and> (\<forall>raw v. sessionCookie = Some raw \<and> accepted P now raw v \<longrightarrow>
               locals_session ctx = v \<and>
               locals_user ctx = js_or (property v (js ''user'')) Null \<and>
               effects = [])
        \<and> (\<forall>raw. sessionCookie = Some raw \<and> \<not> (\<exists>v. accepted P now raw v) \<longrightarrow>
               Cookies_delete (js ''session'') (js ''/'') \<in> set effects \<and>
               locals_session ctx = Null \<and> locals_user ctx = Null \<and>
               \<not> locals_isAuthenticated ctx)
        \<and> (sessionCookie = None \<longrightarrow>
               effects = [] \<and> locals_session ctx = Null \<and> locals_user ctx = Null)
        \<and> result = downstream ctx)"
proof (cases sessionCookie)
  case None
  then show ?thesis
    by (simp add: onRequest_def Let_def)
next
  case (Some raw)
  show ?thesis
  proof (cases "\<exists>v. accepted P now raw v")
    case True
    then obtain v where v: "accepted P now raw v"
      by blast
    then have "truthy v"
      by (auto simp: accepted_def dest: isSessionValid_truthy)
    with v Some show ?thesis
      by (auto simp: onRequest_def accepted_def js_or_def Let_def)
  next
    case False
    with Some show ?thesis
      by (auto simp: onRequest_def accepted_def Let_def split: sum.splits)
  qed
qed

lemma garbage_not_accepted: "\<not> (\<exists>v. accepted test_platform test_now (js ''not json'') v)"
  by (simp add: accepted_def parse_garbage)

theorem onRequest_decision_witness:
  \<open>onRequest test_platform test_now None locals_isAuthenticated =
     (\<lparr> locals_session = Null, locals_user = Null, locals_isAuthenticated = False \<rparr>, [], False)
   \<and> fst (onRequest test_platform test_now (Some (js ''not json'')) locals_isAuthenticated) =
       \<lparr> locals_session = Null, locals_user = Null, locals_isAuthenticated = False \<rparr>
   \<and> Cookies_delete (js ''session'') (js ''/'') \<in>
       set (fst (snd (onRequest test_platform test_now (Some (js ''not json'')) locals_isAuthenticated)))
   \<and> snd (snd (onRequest test_platform test_now (Some (js ''not json'')) locals_isAuthenticated)) = False
   \<and> onRequest test_platform test_now (Some test_cookie) locals_isAuthenticated =
     (\<lparr> locals_session = test_session, locals_user = mockUser, locals_isAuthenticated = True \<rparr>,
      [], True)\<close>
proof -
  have u: "js_or (property test_session (js ''user'')) Null = mockUser"
    by (simp add: js_or_def test_session_def mockUser_def)
  have 1: "onRequest test_platform test_now None locals_isAuthenticated =
     (\<lparr> locals_session = Null, locals_user = Null, locals_isAuthenticated = False \<rparr>, [], False)"
    using onRequest_decision [where P = test_platform and now = test_now and sessionCookie = None
        and downstream = locals_isAuthenticated]
    by (cases "onRequest test_platform test_now None locals_isAuthenticated") auto
  have 2: "fst (onRequest test_platform test_now (Some (js ''not json'')) locals_isAuthenticated) =
       \<lparr> locals_session = Null, locals_user = Null, locals_isAuthenticated = False \<rparr>
   \<and> Cookies_delete (js ''session'') (js ''/'') \<in>
       set (fst (snd (onRequest test_platform test_now (Some (js ''not json'')) locals_isAuthenticated)))
   \<and> snd (snd (onRequest test_platform test_now (Some (js ''not json'')) locals_isAuthenticated)) = False"
    using onRequest_decision [where P = test_platform and now = test_now
        and sessionCookie = "Some (js ''not json'')" and downstream = locals_isAuthenticated]
      garbage_not_accepted
    by (cases "onRequest test_platform test_now (Some (js ''not json'')) locals_isAuthenticated") auto
  have 3: "onRequest test_platform test_now (Some test_cookie) locals_isAuthenticated =
     (\<lparr> locals_session = test_session, locals_user = mockUser, locals_isAuthenticated = True \<rparr>,
      [], True)"
    using onRequest_decision [where P = test_platform and now = test_now
        and sessionCookie = "Some test_cookie" and downstream = locals_isAuthenticated]
      test_session_accepted u
    by (cases "onRequest test_platform test_now (Some test_cookie) locals_isAuthenticated") auto
  from 1 2 3 show ?thesis
    by simp
qed

section \<open>From the session to the cookie and back\<close>

lemma parse_cookie_header: "JSON_parse P (js ''session='' @ rest) = Inl SyntaxError"
proof -
  have "parse_value P (115 # r) = None" for r
    by (subst parse_value.simps)
      (simp add: skip_ws_def is_ws_def js_def scan_number_def scan_int_def scan_digits_def
        is_digit_def)
  then show ?thesis
    by (simp add: JSON_parse_def js_def)
qed

lemma parse_serialized_cookie:
  "parseSessionFromCookie P now (serializeSessionToCookie P session isProduction) = Inr Null"
  by (simp add: serializeSessionToCookie_string parseSessionFromCookie_def catch_def
      parse_cookie_header del: append_assoc)

text \<open>
  The claim as stated fails on the session of the tests. \<^verbatim>\<open>serializeSessionToCookie\<close> returns
  a whole cookie string, \<^verbatim>\<open>session=<json>; HttpOnly; ...\<close>, where \<^verbatim>\<open>parseSessionFromCookie\<close>
  takes the value of the cookie, \<^verbatim>\<open><json>\<close>: \<^verbatim>\<open>JSON.parse\<close> throws on the whole string, and
  the result is \<^verbatim>\<open>null\<close>.
\<close>

theorem parse_of_serialize_counterexample:
  "createAuthSession test_now mockUser (Str (js ''token123'')) 3600 = Inr test_session
   \<and> parseSessionFromCookie test_platform test_now
       (serializeSessionToCookie test_platform test_session False) = Inr Null
   \<and> test_session \<noteq> Null"
  by (simp add: createAuthSession_test parse_serialized_cookie) (simp add: test_session_def)

lemma created_session:
  assumes "createAuthSession now user accessToken expiresIn = Inr session"
  obtains expiresAt where "Date_toISOString (now + expiresIn * 1000) = Inr expiresAt"
    and "session = Obj [(js ''user'', user), (js ''accessToken'', accessToken),
                        (js ''expiresAt'', Str expiresAt)]"
  using assms by (auto simp: createAuthSession_def split: sum.splits)

text \<open>
  C1, as amended. For every session that \<^verbatim>\<open>createAuthSession\<close> made with a time to live of
  3600 seconds, around a user of strings, booleans, \<^verbatim>\<open>null\<close>, arrays and objects and a
  string token, on a platform whose \<^verbatim>\<open>Date.parse\<close> reads the expiry string back as the
  instant it was printed from: the cookie string is \<^verbatim>\<open>session=\<close>, the JSON text of the
  session and the flags; \<^verbatim>\<open>parseSessionFromCookie\<close> on that JSON text, the value of the
  cookie, returns the session, equal to the original in every property, its user and expiry
  among them; and the session satisfies \<^verbatim>\<open>isSessionValid\<close> at the instant of creation.
\<close>

theorem session_payload_round_trip:
  assumes c: "createAuthSession now user (Str token) 3600 = Inr session"
    and u: "plain user"
    and e: "property session (js ''expiresAt'') = Str expiresAt"
    and d: "Date_parse P expiresAt = Some (now + 3600 * 1000)"
  shows "\<exists>payload.
           JSON_stringify P session = Some payload
           \<and> serializeSessionToCookie P session isProduction =
               js ''session='' @ payload @ js ''; HttpOnly'' @
               (if isProduction then js ''; Secure'' else []) @
               js ''; SameSite=lax; Max-Age=3600; Path=/''
           \<and> parseSessionFromCookie P now payload = Inr session
           \<and> property session (js ''user'') = user
           \<and> isSessionValid P now session = Inr True"
proof -
  from c obtain e' where iso: "Date_toISOString (now + 3600 * 1000) = Inr e'"
    and s: "session = Obj [(js ''user'', user), (js ''accessToken'', Str token),
                           (js ''expiresAt'', Str e')]"
    by (rule created_session)
  from s e have e': "e' = expiresAt"
    by simp
  from iso e' have ne: "expiresAt \<noteq> []"
    by (simp add: toISOString_nonempty)
  from s u have "plain session"
    by (simp add: object_order)
  then obtain payload where p: "JSON_stringify P session = Some payload"
    and r: "JSON_parse P payload = Inr session"
    using JSON_parse_stringify [of session P] by blast
  from e ne d have v: "isSessionValid P now session = Inr True"
    by (simp add: isSessionValid_string)
  with r have "accepted P now payload session"
    by (simp add: accepted_def)
  then have "parseSessionFromCookie P now payload = Inr session"
    by (rule parseSessionFromCookie_accepted)
  moreover from p have "serializeSessionToCookie P session isProduction =
               js ''session='' @ payload @ js ''; HttpOnly'' @
               (if isProduction then js ''; Secure'' else []) @
               js ''; SameSite=lax; Max-Age=3600; Path=/''"
    by (simp add: serializeSessionToCookie_string template_def)
  moreover from s have "property session (js ''user'') = user"
    by simp
  ultimately show ?thesis
    using p v by blast
qed

theorem session_payload_round_trip_witness:
  "createAuthSession test_now mockUser (Str (js ''token123'')) 3600 = Inr test_session
   \<and> JSON_stringify test_platform test_session = Some test_cookie
   \<and> parseSessionFromCookie test_platform test_now test_cookie = Inr test_session
   \<and> isSessionValid test_platform test_now test_session = Inr True"
proof -
  have d: "Date_parse test_platform (js ''2024-01-01T13:00:00.000Z'') =
             Some (test_now + 3600 * 1000)"
    by (simp add: test_platform_parse_expiry test_now_def)
  from session_payload_round_trip [OF createAuthSession_test mockUser_plain
      test_session_expiresAt d]
  obtain payload where "JSON_stringify test_platform test_session = Some payload"
    and "parseSessionFromCookie test_platform test_now payload = Inr test_session"
    and "isSessionValid test_platform test_now test_session = Inr True"
    by blast
  moreover have "JSON_stringify test_platform test_session = Some test_cookie"
    unfolding test_cookie_def by (rule test_session_json)
  ultimately show ?thesis
    using createAuthSession_test by simp
qed

section \<open>The login callback\<close>

lemma callback_cookie_options:
  "join (js ''; '')
     (map (\<lambda>(key, v). key @ js ''='' @ ToString_option v)
        (Object_entries (getSessionCookieOptions production))) =
   js ''httpOnly=true; secure='' @ (if production then js ''true'' else js ''false'') @
   js ''; sameSite=lax; maxAge=3600; path=/''"
  by (simp add: Object_entries_def getSessionCookieOptions_def decimal_3600) (simp add: js_def)

lemma callback_header_differs:
  "js ''session='' @ json @ js ''; httpOnly=true; secure='' @ b @ rest \<noteq>
   js ''session='' @ json @ js ''; HttpOnly'' @ rest'"
  by (simp add: js_def)

lemma GetV_truthy: "truthy (property v k) \<Longrightarrow> GetV v k = Inr (property v k)"
  by (cases v) (simp_all add: GetV_def)

lemma GetV_present: "v \<noteq> Null \<Longrightarrow> v \<noteq> Undefined \<Longrightarrow> GetV v k = Inr (property v k)"
  by (simp add: GetV_def)

lemma GetV_Inr: "GetV v k = Inr x \<Longrightarrow> v \<noteq> Null \<and> v \<noteq> Undefined \<and> x = property v k"
  by (auto simp: GetV_def split: if_splits)

lemma google_POST_try_success:
  assumes e: "error = None \<or> error = Some []"
    and c: "code = Some c" "c \<noteq> []"
    and t: "oauth_getToken S c = Inr tokens"
    and n: "tokens \<noteq> Null" "tokens \<noteq> Undefined"
    and g: "oauth_userinfo S tokens = Inr googleUser"
    and p: "truthy (property googleUser (js ''id''))" "truthy (property googleUser (js ''email''))"
      "truthy (property googleUser (js ''name''))"
    and u: "upsert_user now_db S googleUser = (Inr user, logged)"
    and s: "createAuthSession now user (js_or (property tokens (js ''access_token'')) (Str [])) 3600 =
              Inr session"
    and r: "redirect w ''/?auth=success'' = (Inr resp, w1)"
  shows "google_POST_try P now_db now S redirect code error w =
           (Inr (headers_set resp ''Set-Cookie''
                   (js ''session='' @ template (JSON_stringify P session) @
                    js ''; httpOnly=true; secure='' @
                    (if env_production S then js ''true'' else js ''false'') @
                    js ''; sameSite=lax; maxAge=3600; path=/'')),
            logged, w1)"
proof -
  from p(1) have gi: "GetV googleUser (js ''id'') = Inr (property googleUser (js ''id''))"
    by (rule GetV_truthy)
  from n have gt: "GetV tokens (js ''access_token'') = Inr (property tokens (js ''access_token''))"
    by (rule GetV_present)
  from e c t g p u s r gi gt
  have "google_POST_try P now_db now S redirect code error w =
           (Inr (headers_set resp ''Set-Cookie''
                   (js ''session='' @ template (JSON_stringify P session) @ js ''; '' @
                    join (js ''; '')
                      (map (\<lambda>(key, v). key @ js ''='' @ ToString_option v)
                         (Object_entries (getSessionCookieOptions (env_production S)))))),
            logged, w1)"
    by (auto simp: google_POST_try_def Let_def)
  then show ?thesis
    by (simp add: callback_cookie_options) (simp add: js_def)
qed

lemma google_POST_try_returns:
  assumes e: "error = None \<or> error = Some []"
    and r: "google_POST_try P now_db now S redirect code error w = (Inr r, logged, w1)"
  shows "\<exists>c tokens googleUser user session resp.
           code = Some c \<and> c \<noteq> [] \<and> oauth_getToken S c = Inr tokens \<and>
           tokens \<noteq> Null \<and> tokens \<noteq> Undefined \<and>
           oauth_userinfo S tokens = Inr googleUser \<and>
           truthy (property googleUser (js ''id'')) \<and>
           truthy (property googleUser (js ''email'')) \<and>
           truthy (property googleUser (js ''name'')) \<and>
           upsert_user now_db S googleUser = (Inr user, logged) \<and>
           createAuthSession now user
             (js_or (property tokens (js ''access_token'')) (Str [])) 3600 = Inr session \<and>
           redirect w ''/?auth=success'' = (Inr resp, w1) \<and>
           r = headers_set resp ''Set-Cookie''
                 (js ''session='' @ template (JSON_stringify P session) @
                  js ''; httpOnly=true; secure='' @
                  (if env_production S then js ''true'' else js ''false'') @
                  js ''; sameSite=lax; maxAge=3600; path=/'')"
proof -
  from e r obtain c where c: "code = Some c" "c \<noteq> []"
    by (cases code) (auto simp: google_POST_try_def split: if_splits)
  from e r c obtain tokens where t: "oauth_getToken S c = Inr tokens"
    by (cases "oauth_getToken S c") (auto simp: google_POST_try_def)
  from e r c t obtain googleUser where g: "oauth_userinfo S tokens = Inr googleUser"
    by (cases "oauth_userinfo S tokens") (auto simp: google_POST_try_def)
  from e r c t g obtain google_id where gi: "GetV googleUser (js ''id'') = Inr google_id"
    by (cases "GetV googleUser (js ''id'')") (auto simp: google_POST_try_def)
  then have gid: "google_id = property googleUser (js ''id'')"
    by (simp add: GetV_Inr)
  from e r c t g gi gid have p: "truthy (property googleUser (js ''id''))"
    "truthy (property googleUser (js ''email''))" "truthy (property googleUser (js ''name''))"
    by (auto simp: google_POST_try_def split: if_splits)
  obtain ur ul where u0: "upsert_user now_db S googleUser = (ur, ul)"
    by (cases "upsert_user now_db S googleUser")
  from e r c t g gi gid p u0 obtain user where ur: "ur = Inr user"
    by (cases ur) (auto simp: google_POST_try_def)
  from e r c t g gi gid p u0 ur obtain access_token
    where ga: "GetV tokens (js ''access_token'') = Inr access_token"
    by (cases "GetV tokens (js ''access_token'')") (auto simp: google_POST_try_def)
  then have n: "tokens \<noteq> Null" "tokens \<noteq> Undefined"
    and at: "access_token = property tokens (js ''access_token'')"
    by (simp_all add: GetV_Inr)
  from e r c t g gi gid p u0 ur ga obtain session
    where s: "createAuthSession now user (js_or access_token (Str [])) 3600 = Inr session"
    by (cases "createAuthSession now user (js_or access_token (Str [])) 3600")
      (auto simp: google_POST_try_def)
  obtain rr rw where r0: "redirect w ''/?auth=success'' = (rr, rw)"
    by (cases "redirect w ''/?auth=success''")
  from e r c t g gi gid p u0 ur ga s r0 obtain resp where rr: "rr = Inr resp"
    by (cases rr) (auto simp: google_POST_try_def Let_def)
  from e r c t g gi gid p u0 ur ga s r0 rr have l: "ul = logged" "rw = w1"
    by (auto simp: google_POST_try_def Let_def)
  from u0 ur l have u: "upsert_user now_db S googleUser = (Inr user, logged)"
    by simp
  from r0 rr l have rd: "redirect w ''/?auth=success'' = (Inr resp, w1)"
    by simp
  from s at have s': "createAuthSession now user
      (js_or (property tokens (js ''access_token'')) (Str [])) 3600 = Inr session"
    by simp
  from google_POST_try_success [where redirect = redirect and w = w and P = P,
      OF e c t n g p u s' rd] r
  have "r = headers_set resp ''Set-Cookie''
                 (js ''session='' @ template (JSON_stringify P session) @
                  js ''; httpOnly=true; secure='' @
                  (if env_production S then js ''true'' else js ''false'') @
                  js ''; sameSite=lax; maxAge=3600; path=/'')"
    by simp
  with c t n g p u s' rd show ?thesis
    by blast
qed

lemma google_POST_of_try:
  "google_POST_try P now_db now S redirect code error w = (Inr r, logged, w1) \<Longrightarrow>
   google_POST P now_db now S redirect code error w = (Inr r, logged, w1)"
  by (simp add: google_POST_def)

text \<open>
  Tokens that are \<^verbatim>\<open>null\<close> or \<^verbatim>\<open>undefined\<close>: line 131 throws after the upsert, and the
  callback ends in the redirect to \<^verbatim>\<open>/?error=server_error\<close>, with the response of the
  redirect helper as it is.
\<close>

lemma google_POST_without_tokens:
  assumes "error = None \<or> error = Some []" and "code = Some c" "c \<noteq> []"
    and "oauth_getToken S c = Inr tokens" and "tokens = Null \<or> tokens = Undefined"
    and "oauth_userinfo S tokens = Inr googleUser"
    and "truthy (property googleUser (js ''id''))" "truthy (property googleUser (js ''email''))"
      "truthy (property googleUser (js ''name''))"
    and "upsert_user now_db S googleUser = (Inr user, logged)"
  shows "google_POST P now_db now S redirect code error w =
           (case redirect w ''/?error=server_error'' of
              (r, w2) \<Rightarrow> (r, logged @ [Console_error ''Authentication error:''], w2))"
proof -
  from assms(7) have "GetV googleUser (js ''id'') = Inr (property googleUser (js ''id''))"
    by (rule GetV_truthy)
  moreover from assms(5) have "GetV tokens (js ''access_token'') = Inl TypeError"
    by (auto simp: GetV_def)
  ultimately have "google_POST_try P now_db now S redirect code error w =
      (Inl TypeError, logged, w)"
    using assms by (auto simp: google_POST_try_def)
  then show ?thesis
    by (simp add: google_POST_def)
qed

text \<open>
  C9. A callback succeeds when the request has no \<^verbatim>\<open>error\<close> parameter and the body of the
  \<^verbatim>\<open>try\<close> returns its response. Then the handler returns that response, and its
  \<^verbatim>\<open>Set-Cookie\<close> header is
  \<^verbatim>\<open>session=<json>; httpOnly=true; secure=<true|false>; sameSite=lax; maxAge=3600; path=/\<close>,
  the raw option entries as \<^verbatim>\<open>key=value\<close>, for the session \<^verbatim>\<open>createAuthSession\<close> made
  of the stored user; it is never the string \<^verbatim>\<open>serializeSessionToCookie\<close> makes of the same
  session. The callback does succeed when there is a code, the token exchange gives tokens,
  the profile request succeeds, the profile has \<^verbatim>\<open>id\<close>, \<^verbatim>\<open>email\<close> and \<^verbatim>\<open>name\<close>, the store
  upsert succeeds, the session is created and the redirect helper returns.
\<close>

theorem google_callback_cookie_header:
  "(\<forall>r logged w1.
      (error = None \<or> error = Some []) \<and>
      google_POST_try P now_db now S redirect code error w = (Inr r, logged, w1) \<longrightarrow>
      google_POST P now_db now S redirect code error w = (Inr r, logged, w1) \<and>
      (\<exists>user token session.
         createAuthSession now user token 3600 = Inr session \<and>
         headers r ''Set-Cookie'' =
           Some (js ''session='' @ template (JSON_stringify P session) @
                 js ''; httpOnly=true; secure='' @
                 (if env_production S then js ''true'' else js ''false'') @
                 js ''; sameSite=lax; maxAge=3600; path=/'') \<and>
         headers r ''Set-Cookie'' \<noteq>
           Some (serializeSessionToCookie P session (env_production S))))
   \<and> (\<forall>c tokens googleUser user logged session resp w1.
        (error = None \<or> error = Some []) \<and> code = Some c \<and> c \<noteq> [] \<and>
        oauth_getToken S c = Inr tokens \<and> tokens \<noteq> Null \<and> tokens \<noteq> Undefined \<and>
        oauth_userinfo S tokens = Inr googleUser \<and>
        truthy (property googleUser (js ''id'')) \<and>
        truthy (property googleUser (js ''email'')) \<and>
        truthy (property googleUser (js ''name'')) \<and>
        upsert_user now_db S googleUser = (Inr user, logged) \<and>
        createAuthSession now user
          (js_or (property tokens (js ''access_token'')) (Str [])) 3600 = Inr session \<and>
        redirect w ''/?auth=success'' = (Inr resp, w1)
        \<longrightarrow>
        google_POST P now_db now S redirect code error w =
          (Inr (headers_set resp ''Set-Cookie''
                  (js ''session='' @ template (JSON_stringify P session) @
                   js ''; httpOnly=true; secure='' @
                   (if env_production S then js ''true'' else js ''false'') @
                   js ''; sameSite=lax; maxAge=3600; path=/'')),
           logged, w1))"
proof (intro conjI allI impI)
  fix r logged w1
  assume a: "(error = None \<or> error = Some []) \<and>
      google_POST_try P now_db now S redirect code error w = (Inr r, logged, w1)"
  then show "google_POST P now_db now S redirect code error w = (Inr r, logged, w1)"
    by (simp add: google_POST_of_try)
  from a google_POST_try_returns [of error P now_db now S redirect code w r logged w1]
  obtain tokens user session resp
    where s: "createAuthSession now user
                (js_or (property tokens (js ''access_token'')) (Str [])) 3600 = Inr session"
      and r: "r = headers_set resp ''Set-Cookie''
                 (js ''session='' @ template (JSON_stringify P session) @
                  js ''; httpOnly=true; secure='' @
                  (if env_production S then js ''true'' else js ''false'') @
                  js ''; sameSite=lax; maxAge=3600; path=/'')"
    by blast
  from r have h: "headers r ''Set-Cookie'' =
           Some (js ''session='' @ template (JSON_stringify P session) @
                 js ''; httpOnly=true; secure='' @
                 (if env_production S then js ''true'' else js ''false'') @
                 js ''; sameSite=lax; maxAge=3600; path=/'')"
    by (simp add: headers_set_lookup)
  have "js ''session='' @ template (JSON_stringify P session) @
          js ''; httpOnly=true; secure='' @
          (if env_production S then js ''true'' else js ''false'') @
          js ''; sameSite=lax; maxAge=3600; path=/'' \<noteq>
        serializeSessionToCookie P session (env_production S)"
    using callback_header_differs by (simp add: serializeSessionToCookie_string)
  with h have "headers r ''Set-Cookie'' \<noteq>
           Some (serializeSessionToCookie P session (env_production S))"
    by simp
  with s h show "\<exists>user token session.
         createAuthSession now user token 3600 = Inr session \<and>
         headers r ''Set-Cookie'' =
           Some (js ''session='' @ template (JSON_stringify P session) @
                 js ''; httpOnly=true; secure='' @
                 (if env_production S then js ''true'' else js ''false'') @
                 js ''; sameSite=lax; maxAge=3600; path=/'') \<and>
         headers r ''Set-Cookie'' \<noteq>
           Some (serializeSessionToCookie P session (env_production S))"
    by blast
next
  fix c tokens googleUser user logged session resp w1
  assume a: "(error = None \<or> error = Some []) \<and> code = Some c \<and> c \<noteq> [] \<and>
        oauth_getToken S c = Inr tokens \<and> tokens \<noteq> Null \<and> tokens \<noteq> Undefined \<and>
        oauth_userinfo S tokens = Inr googleUser \<and>
        truthy (property googleUser (js ''id'')) \<and>
        truthy (property googleUser (js ''email'')) \<and>
        truthy (property googleUser (js ''name'')) \<and>
        upsert_user now_db S googleUser = (Inr user, logged) \<and>
        createAuthSession now user
          (js_or (property tokens (js ''access_token'')) (Str [])) 3600 = Inr session \<and>
        redirect w ''/?auth=success'' = (Inr resp, w1)"
  then have "google_POST_try P now_db now S redirect code error w =
          (Inr (headers_set resp ''Set-Cookie''
                  (js ''session='' @ template (JSON_stringify P session) @
                   js ''; httpOnly=true; secure='' @
                   (if env_production S then js ''true'' else js ''false'') @
                   js ''; sameSite=lax; maxAge=3600; path=/'')),
           logged, w1)"
    using google_POST_try_success [where error = error and code = code and c = c and S = S
        and tokens = tokens and googleUser = googleUser and now_db = now_db and user = user
        and logged = logged and now = now and session = session and redirect = redirect
        and w = w and resp = resp and ?w1.0 = w1 and P = P]
    by blast
  then show "google_POST P now_db now S redirect code error w =
          (Inr (headers_set resp ''Set-Cookie''
                  (js ''session='' @ template (JSON_stringify P session) @
                   js ''; httpOnly=true; secure='' @
                   (if env_production S then js ''true'' else js ''false'') @
                   js ''; sameSite=lax; maxAge=3600; path=/'')),
           logged, w1)"
    by (rule google_POST_of_try)
qed

lemma mock_upsert:
  "upsert_user test_now mock_services mock_googleUser = (Inr mock_newUser, [])"
  by (simp add: upsert_user_def mock_services_def mock_newUser_def)

lemma mock_createAuthSession:
  "createAuthSession test_now mock_newUser
     (js_or (property mock_tokens (js ''access_token'')) (Str [])) 3600 = Inr mock_login_session"
  by (simp add: createAuthSession_def test_now_def toISOString_test_expiry mock_login_session_def
      mock_tokens_def js_or_def)

lemma mock_login_session_json:
  \<open>JSON_stringify P mock_login_session =
     Some (js ''{"user":{"id":"1","google_id":"google-123","email":"test@example.com","name":"Test User","avatar_url":"https://example.com/avatar.jpg","created_at":"2024-01-01T00:00:00Z","updated_at":"2024-01-01T00:00:00Z"},"accessToken":"mock-access-token","expiresAt":"2024-01-01T13:00:00.000Z"}'')\<close>
  by (simp add: mock_login_session_def mock_newUser_def QuoteJSONString_js safe_char_def
        js_append [symmetric])

theorem google_callback_cookie_header_witness:
  \<open>google_POST test_platform test_now test_now mock_services mock_redirect
     (Some (js ''auth-code'')) None 0 =
   (Inr (headers_set mock_response ''Set-Cookie'' mock_login_cookie), [], 1)
   \<and> headers (headers_set mock_response ''Set-Cookie'' mock_login_cookie) ''Set-Cookie'' =
       Some mock_login_cookie
   \<and> mock_login_cookie \<noteq> serializeSessionToCookie test_platform mock_login_session False\<close>
proof -
  let ?H = "js ''session='' @ template (JSON_stringify test_platform mock_login_session) @
            js ''; httpOnly=true; secure='' @
            (if env_production mock_services then js ''true'' else js ''false'') @
            js ''; sameSite=lax; maxAge=3600; path=/''"
  have a: "oauth_getToken mock_services (js ''auth-code'') = Inr mock_tokens"
    "oauth_userinfo mock_services mock_tokens = Inr mock_googleUser"
    by (simp_all add: mock_services_def)
  have p: "\<not> env_production mock_services"
    by (simp add: mock_services_def)
  have n: "mock_tokens \<noteq> Null" "mock_tokens \<noteq> Undefined"
    by (simp_all add: mock_tokens_def)
  have b: "truthy (property mock_googleUser (js ''id''))"
    "truthy (property mock_googleUser (js ''email''))"
    "truthy (property mock_googleUser (js ''name''))"
    by (simp_all add: mock_googleUser_def)
  have r: "mock_redirect 0 ''/?auth=success'' = (Inr mock_response, 1)"
    by (simp add: mock_redirect_def)
  have H: "?H = mock_login_cookie"
    using p by (simp add: mock_login_session_json template_def mock_login_cookie_def
        js_append [symmetric])
  note inst = google_callback_cookie_header [where error = None
      and code = "Some (js ''auth-code'')" and S = mock_services and now_db = test_now
      and now = test_now and redirect = mock_redirect and w = 0 and P = test_platform]
  note returned = inst [THEN conjunct1, rule_format]
  note succeeds = inst [THEN conjunct2, rule_format]
  have 1: "google_POST test_platform test_now test_now mock_services mock_redirect
     (Some (js ''auth-code'')) None 0 =
     (Inr (headers_set mock_response ''Set-Cookie'' ?H), [], 1)"
    by (rule succeeds [where c = "js ''auth-code''" and tokens = mock_tokens
          and googleUser = mock_googleUser and user = mock_newUser and logged = "[]"
          and session = mock_login_session and resp = mock_response and ?w1.0 = 1])
      (simp add: a n b r mock_upsert mock_createAuthSession)
  have t: "google_POST_try test_platform test_now test_now mock_services mock_redirect
     (Some (js ''auth-code'')) None 0 =
     (Inr (headers_set mock_response ''Set-Cookie'' ?H), [], 1)"
    using a n b r mock_upsert mock_createAuthSession
      google_POST_try_success [where error = None and code = "Some (js ''auth-code'')"
        and c = "js ''auth-code''" and S = mock_services and tokens = mock_tokens
        and googleUser = mock_googleUser and now_db = test_now and user = mock_newUser
        and logged = "[]" and now = test_now and session = mock_login_session
        and redirect = mock_redirect and w = 0 and resp = mock_response and ?w1.0 = 1
        and P = test_platform]
    by simp
  have "google_POST test_platform test_now test_now mock_services mock_redirect
     (Some (js ''auth-code'')) None 0 =
     (Inr (headers_set mock_response ''Set-Cookie'' ?H), [], 1)"
    by (rule returned [where r = "headers_set mock_response ''Set-Cookie'' ?H"
          and logged = "[]" and ?w1.0 = 1, THEN conjunct1])
      (simp add: t)
  have 2: "headers (headers_set mock_response ''Set-Cookie'' ?H) ''Set-Cookie'' = Some ?H"
    by (simp add: headers_set_lookup)
  have 3: "mock_login_cookie \<noteq> serializeSessionToCookie test_platform mock_login_session False"
    using callback_header_differs
    by (simp add: H [symmetric] p serializeSessionToCookie_string)
  from 1 2 3 show ?thesis
    by (simp add: H)
qed

end
